theory Spec2Isabelle
  imports Complex_Main
begin

section \<open>Data model of the pet server (src/app.py)\<close>

text \<open>
  Time stamps are seconds on the real line: the ISO strings and \<open>datetime\<close> values of
  the source are read as exact points in time, and Python floats as exact reals. A
  column that may hold NULL is an \<open>option\<close>. The clock readings of one handler call
  are one parameter: \<open>now\<close> stands for \<open>datetime.now()\<close> and \<open>time.time()\<close>,
  \<open>utcnow\<close> for \<open>datetime.utcnow()\<close> and SQLite's \<open>CURRENT_TIMESTAMP\<close>. The device
  id a handler receives is the value after the default \<open>'ESP32_001'\<close> has been applied,
  and database connections are taken to succeed. The \<open>message\<close> texts of the JSON
  bodies and table \<open>sensor_readings\<close> are left out.
\<close>

type_synonym timestamp = real

text \<open>One row of table \<open>pet_state\<close> (the columns created by \<open>init_database\<close>).\<close>

record pet_row =
  device_id :: string
  age :: int
  stage :: string
  health :: int
  hunger :: real
  cleanliness :: int
  happiness :: int
  energy :: int
  poop_present :: bool
  poop_timestamp :: "timestamp option"
  digestion_due_time :: "timestamp option"
  current_menu :: string
  current_emotion :: string
  emotion_expire_at :: "timestamp option"
  action_lock :: bool
  version :: int
  last_feed_time :: "timestamp option"
  last_play_time :: "timestamp option"
  last_sleep_time :: "timestamp option"
  last_clean_time :: "timestamp option"
  last_age_increment :: "timestamp option"

text \<open>One row of table \<open>oled_display_state\<close>, the display override.\<close>

record oled_row =
  oled_device_id :: string
  animation_type :: string
  animation_id :: int
  animation_name :: string
  show_home_icon :: "bool option"
  show_food_icon :: "bool option"
  show_poop_icon :: "bool option"
  screen_type :: string
  updated_at :: "timestamp option"
  updated_by :: string

text \<open>One row of table \<open>important_events\<close>.\<close>

record event_row =
  event_id :: int
  event_device_id :: string
  event_type :: string
  created_at :: timestamp
  is_sent :: bool

text \<open>
  The state the handlers share: the three tables, rows in insertion order, and the
  global \<open>db_lock\<close>. The lock is a non-reentrant \<open>threading.Lock\<close>; between handler
  calls it is free, unless a handler tried to take it a second time while holding it:
  that handler never returns and the lock stays held (\<open>db_lock = True\<close>) for good.
  No statement deletes from \<open>pet_state\<close>, so the AUTOINCREMENT key \<open>id\<close> of a row
  is its position in the list.
\<close>

record server =
  pet_state :: "pet_row list"
  oled_display_state :: "oled_row list"
  important_events :: "event_row list"
  db_lock :: bool

text \<open>A call either returns a value or blocks forever on \<open>db_lock\<close>.\<close>

datatype 'a outcome = Returns 'a | Blocks

text \<open>A JSON body is an association list; a response is the HTTP status code with it.\<close>

datatype json = JInt int | JReal real | JStr string | JBool bool | JNull

type_synonym response = "nat \<times> (string \<times> json) list"

definition DEFAULT_DEVICE :: string where
  "DEFAULT_DEVICE = ''ESP32_001''"

section \<open>Step detection\<close>

text \<open>
  The state \<open>detect_steps\<close> keeps between calls: the function attribute
  \<open>detect_steps.last_step_time\<close> (0 until the first step) and the global counter.
\<close>

record step_state =
  last_step_time :: timestamp
  step_count_global :: int

definition initial_step_state :: step_state where
  "initial_step_state = \<lparr>last_step_time = 0, step_count_global = 0\<rparr>"


text \<open>
  The body of \<open>/api/sensor-data\<close> that counts steps. A reading is its three
  accelerations after the defaults of \<open>reading.get\<close>; \<open>batch_readings\<close> is the
  \<open>for idx, reading in enumerate(readings)\<close> loop with its running total.
\<close>

type_synonym reading = "real \<times> real \<times> real"







section \<open>Pet state engine\<close>

text \<open>
  An \<open>update_fields\<close> dictionary is a list of assignments, applied in order (a later
  assignment to the same key wins, as in the source where a key is assigned twice).
\<close>

datatype field_update =
    Upd_age int
  | Upd_stage string
  | Upd_health int
  | Upd_hunger real
  | Upd_cleanliness int
  | Upd_happiness int
  | Upd_energy int
  | Upd_poop_present bool
  | Upd_poop_timestamp "timestamp option"
  | Upd_digestion_due_time "timestamp option"
  | Upd_current_menu string
  | Upd_current_emotion string
  | Upd_emotion_expire_at "timestamp option"
  | Upd_action_lock bool
  | Upd_version int
  | Upd_last_feed_time "timestamp option"
  | Upd_last_play_time "timestamp option"
  | Upd_last_clean_time "timestamp option"
  | Upd_last_age_increment "timestamp option"

fun apply_field :: "field_update \<Rightarrow> pet_row \<Rightarrow> pet_row" where
  "apply_field (Upd_age v) r = r\<lparr>age := v\<rparr>"
| "apply_field (Upd_stage v) r = r\<lparr>stage := v\<rparr>"
| "apply_field (Upd_health v) r = r\<lparr>health := v\<rparr>"
| "apply_field (Upd_hunger v) r = r\<lparr>hunger := v\<rparr>"
| "apply_field (Upd_cleanliness v) r = r\<lparr>cleanliness := v\<rparr>"
| "apply_field (Upd_happiness v) r = r\<lparr>happiness := v\<rparr>"
| "apply_field (Upd_energy v) r = r\<lparr>energy := v\<rparr>"
| "apply_field (Upd_poop_present v) r = r\<lparr>poop_present := v\<rparr>"
| "apply_field (Upd_poop_timestamp v) r = r\<lparr>poop_timestamp := v\<rparr>"
| "apply_field (Upd_digestion_due_time v) r = r\<lparr>digestion_due_time := v\<rparr>"
| "apply_field (Upd_current_menu v) r = r\<lparr>current_menu := v\<rparr>"
| "apply_field (Upd_current_emotion v) r = r\<lparr>current_emotion := v\<rparr>"
| "apply_field (Upd_emotion_expire_at v) r = r\<lparr>emotion_expire_at := v\<rparr>"
| "apply_field (Upd_action_lock v) r = r\<lparr>action_lock := v\<rparr>"
| "apply_field (Upd_version v) r = r\<lparr>version := v\<rparr>"
| "apply_field (Upd_last_feed_time v) r = r\<lparr>last_feed_time := v\<rparr>"
| "apply_field (Upd_last_play_time v) r = r\<lparr>last_play_time := v\<rparr>"
| "apply_field (Upd_last_clean_time v) r = r\<lparr>last_clean_time := v\<rparr>"
| "apply_field (Upd_last_age_increment v) r = r\<lparr>last_age_increment := v\<rparr>"

text \<open>\<open>{**state, **updates}\<close>\<close>

definition merge_fields :: "pet_row \<Rightarrow> field_update list \<Rightarrow> pet_row" where
  "merge_fields state updates = fold apply_field updates state"

text \<open>Position of the first row that satisfies \<open>P\<close>: what \<open>fetchone\<close> returns of a SELECT.\<close>

fun first_index :: "('a \<Rightarrow> bool) \<Rightarrow> 'a list \<Rightarrow> nat option" where
  "first_index P [] = None"
| "first_index P (x # xs) = (if P x then Some 0 else map_option Suc (first_index P xs))"

text \<open>
  The statements of \<open>update_pet_state_atomic\<close>: the SELECT by device id, the merge
  with the version increment, and the UPDATE \<open>WHERE id = ? AND version = ?\<close>, which
  returns its row count. The UPDATE does not write column \<open>device_id\<close>.
\<close>

definition select_current :: "string \<Rightarrow> pet_row list \<Rightarrow> (nat \<times> pet_row) option" where
  "select_current dev rows =
     (case first_index (\<lambda>r. device_id r = dev) rows of
        None \<Rightarrow> None
      | Some i \<Rightarrow> Some (i, rows ! i))"

definition merge_updates :: "pet_row \<Rightarrow> field_update list \<Rightarrow> pet_row" where
  "merge_updates current_state update_fields =
     (merge_fields current_state update_fields)\<lparr>version := version current_state + 1\<rparr>"

definition update_where_id_version ::
    "nat \<Rightarrow> int \<Rightarrow> pet_row \<Rightarrow> pet_row list \<Rightarrow> nat \<times> pet_row list" where
  "update_where_id_version i v new_state rows =
     (if i < length rows \<and> version (rows ! i) = v
      then (1, rows[i := new_state\<lparr>device_id := device_id (rows ! i)\<rparr>])
      else (0, rows))"

text \<open>
  \<open>update_pet_state_atomic(device_id, update_fields)\<close>. On a row count of 0 the
  source calls itself inside \<open>with db_lock\<close>: the inner call waits for the lock its
  caller holds.
\<close>

definition update_pet_state_atomic ::
    "string \<Rightarrow> field_update list \<Rightarrow> server \<Rightarrow> pet_row option outcome \<times> server" where
  "update_pet_state_atomic dev update_fields s =
     (if db_lock s then (Blocks, s)
      else case select_current dev (pet_state s) of
        None \<Rightarrow> (Returns None, s)
      | Some (i, current_state) \<Rightarrow>
          (let new_state = merge_updates current_state update_fields;
               (rowcount, rows') =
                  update_where_id_version i (version current_state) new_state (pet_state s)
           in if rowcount = 0 then (Blocks, s\<lparr>db_lock := True\<rparr>)
              else (Returns (Some new_state), s\<lparr>pet_state := rows'\<rparr>)))"

definition get_pet_state :: "string \<Rightarrow> server \<Rightarrow> pet_row option outcome" where
  "get_pet_state dev s =
     (if db_lock s then Blocks
      else Returns (find (\<lambda>r. device_id r = dev) (pet_state s)))"

text \<open>
  \<open>get_emotion_priority(state)\<close>. The source reads \<open>datetime.now()\<close> inside the
  function; that reading is the first argument here.
\<close>

definition get_emotion_priority :: "timestamp \<Rightarrow> pet_row \<Rightarrow> string" where
  "get_emotion_priority now state =
     (if (case emotion_expire_at state of None \<Rightarrow> False | Some expire_time \<Rightarrow> expire_time > now)
      then current_emotion state
      else if health state < 40 then ''SICK''
      else if poop_present state then
        (if (case poop_timestamp state of None \<Rightarrow> False
             | Some poop_time \<Rightarrow> now - poop_time > 15 * 60)
         then ''SICK'' else ''POOP'')
      else if hunger state > 70 then
        (if stage state = ''INFANT'' then ''CRY'' else ''HUNGER'')
      else if energy state < 30 then ''SLEEP''
      else if happiness state > 80 then ''HAPPY''
      else if happiness state < 40 then ''SAD''
      else ''IDLE'')"

subsection \<open>The scheduler tick\<close>









text \<open>Vocabulary for the theorems about the emotion priority.\<close>

definition emotion_locked :: "timestamp \<Rightarrow> pet_row \<Rightarrow> bool" where
  "emotion_locked now s = (case emotion_expire_at s of None \<Rightarrow> False | Some e \<Rightarrow> now < e)"

definition poop_neglected :: "timestamp \<Rightarrow> pet_row \<Rightarrow> bool" where
  "poop_neglected now s = (case poop_timestamp s of None \<Rightarrow> False | Some p \<Rightarrow> 15 * 60 < now - p)"

text \<open>The row the table holds for a device: the first one with its id.\<close>

definition stored :: "string \<Rightarrow> server \<Rightarrow> pet_row option" where
  "stored dev s = find (\<lambda>r. device_id r = dev) (pet_state s)"

subsection \<open>Action endpoints\<close>

text \<open>
  Each handler reads the row with \<open>get_pet_state\<close>, then commits through
  \<open>update_pet_state_atomic\<close>; the result of the call that sets \<open>action_lock\<close> is
  not looked at by the source.
\<close>

definition then_update ::
    "string \<Rightarrow> field_update list \<Rightarrow> pet_row option outcome \<times> server
      \<Rightarrow> pet_row option outcome \<times> server" where
  "then_update dev update_fields first =
     (case first of
        (Blocks, s') \<Rightarrow> (Blocks, s')
      | (Returns _, s') \<Rightarrow> update_pet_state_atomic dev update_fields s')"

definition feed_updates :: "timestamp \<Rightarrow> pet_row \<Rightarrow> field_update list" where
  "feed_updates now state =
     [Upd_hunger (max 0 (hunger state - 40)),
      Upd_last_feed_time (Some now),
      Upd_digestion_due_time (Some (now + 30 * 60)),
      Upd_current_emotion ''EATING'',
      Upd_emotion_expire_at (Some (now + 3))]"

definition json_time :: "timestamp option \<Rightarrow> json" where
  "json_time t = (case t of None \<Rightarrow> JNull | Some v \<Rightarrow> JReal v)"

definition pet_not_found :: response where
  "pet_not_found = (404, [(''status'', JStr ''error'')])"

definition action_failed :: response where
  "action_failed = (500, [(''status'', JStr ''error'')])"

definition pet_feed :: "string \<Rightarrow> timestamp \<Rightarrow> server \<Rightarrow> response outcome \<times> server" where
  "pet_feed dev now s =
     (case get_pet_state dev s of
        Blocks \<Rightarrow> (Blocks, s)
      | Returns None \<Rightarrow> (Returns pet_not_found, s)
      | Returns (Some state) \<Rightarrow>
          (case then_update dev (feed_updates now state @ [Upd_action_lock False])
                  (update_pet_state_atomic dev [Upd_action_lock True] s) of
             (Blocks, s') \<Rightarrow> (Blocks, s')
           | (Returns None, s') \<Rightarrow> (Returns action_failed, s')
           | (Returns (Some result), s') \<Rightarrow>
               (Returns (200, [(''status'', JStr ''success''),
                               (''hunger'', JReal (hunger result)),
                               (''emotion'', JStr (current_emotion result)),
                               (''digestion_due'', json_time (digestion_due_time result))]), s')))"

text \<open>
  \<open>/upload\<close>: the part after the image has been stored. An empty body is answered
  with 400 before anything else; the response does not depend on whether a pet row
  was found.
\<close>

definition upload_binary_image ::
    "string \<Rightarrow> bool \<Rightarrow> timestamp \<Rightarrow> server \<Rightarrow> response outcome \<times> server" where
  "upload_binary_image dev has_image_data now s =
     (if \<not> has_image_data then (Returns (400, []), s)
      else case get_pet_state dev s of
        Blocks \<Rightarrow> (Blocks, s)
      | Returns state_opt \<Rightarrow>
          (case (case state_opt of
                   None \<Rightarrow> (Returns None, s)
                 | Some state \<Rightarrow> update_pet_state_atomic dev (feed_updates now state) s) of
             (Blocks, s') \<Rightarrow> (Blocks, s')
           | (Returns _, s') \<Rightarrow>
               (Returns (200, [(''status'', JStr ''success''),
                               (''pet_fed'', JBool True),
                               (''hunger_reduced'', JInt 40)]), s')))"





section \<open>Important events\<close>

text \<open>
  \<open>/api/device/event/received\<close>. The request body is a JSON object, of which the
  handler reads \<open>event_id\<close> (required) and \<open>device_id\<close> (optional). The row count
  of the UPDATE is the number of rows its WHERE clause selects.
\<close>

record ack_request =
  req_event_id :: "int option"
  req_device_id :: "string option"

definition mark_event_received :: "ack_request \<Rightarrow> server \<Rightarrow> response outcome \<times> server" where
  "mark_event_received data s =
     (case req_event_id data of
        None \<Rightarrow> (Returns (400, [(''status'', JStr ''error'')]), s)
      | Some eid \<Rightarrow>
          if db_lock s then (Blocks, s)
          else
            let dev = (case req_device_id data of None \<Rightarrow> DEFAULT_DEVICE | Some d \<Rightarrow> d);
                selected = (\<lambda>e. event_id e = eid \<and> event_device_id e = dev);
                rowcount = length (filter selected (important_events s));
                s' = s\<lparr>important_events :=
                        map (\<lambda>e. if selected e then e\<lparr>is_sent := True\<rparr> else e) (important_events s)\<rparr>
            in if rowcount > 0
               then (Returns (200, [(''status'', JStr ''success''), (''event_id'', JInt eid)]), s')
               else (Returns (404, [(''status'', JStr ''error''), (''event_id'', JInt eid)]), s'))"

text \<open>A sequence of feeds of one device, through either endpoint.\<close>

datatype feed_call = Feed_endpoint timestamp | Image_upload timestamp

fun feed_calls :: "string \<Rightarrow> feed_call list \<Rightarrow> server \<Rightarrow> server" where
  "feed_calls dev [] s = s"
| "feed_calls dev (Feed_endpoint now # calls) s = feed_calls dev calls (snd (pet_feed dev now s))"
| "feed_calls dev (Image_upload now # calls) s =
     feed_calls dev calls (snd (upload_binary_image dev True now s))"

text \<open>Vocabulary for the theorems: what a feed at time \<open>now\<close> makes of a row.\<close>

definition fed :: "timestamp \<Rightarrow> pet_row \<Rightarrow> pet_row \<Rightarrow> bool" where
  "fed now before after =
     (hunger after = max 0 (hunger before - 40)
      \<and> digestion_due_time after = Some (now + 30 * 60)
      \<and> current_emotion after = ''EATING''
      \<and> emotion_expire_at after = Some (now + 3))"

section \<open>Display projection\<close>

text \<open>The column defaults of \<open>oled_display_state\<close> and \<open>pet_state\<close>, used by the INSERTs.\<close>

definition default_oled_row :: "string \<Rightarrow> timestamp \<Rightarrow> oled_row" where
  "default_oled_row dev utcnow =
     \<lparr>oled_device_id = dev, animation_type = ''pet'', animation_id = 1,
      animation_name = ''CHILD'', show_home_icon = Some False, show_food_icon = Some False,
      show_poop_icon = Some False, screen_type = ''MAIN'', updated_at = Some utcnow,
      updated_by = ''web_ui''\<rparr>"

definition default_pet_row :: "string \<Rightarrow> timestamp \<Rightarrow> pet_row" where
  "default_pet_row dev utcnow =
     \<lparr>device_id = dev, age = 0, stage = ''INFANT'', health = 100, hunger = 0,
      cleanliness = 100, happiness = 100, energy = 100, poop_present = False,
      poop_timestamp = None, digestion_due_time = None, current_menu = ''MAIN'',
      current_emotion = ''IDLE'', emotion_expire_at = None, action_lock = False, version = 0,
      last_feed_time = None, last_play_time = None, last_sleep_time = None,
      last_clean_time = None, last_age_increment = Some utcnow\<rparr>"

text \<open>An UPDATE \<open>WHERE device_id = ?\<close>: the rows it selects are rewritten, the others kept.\<close>

definition update_oled :: "string \<Rightarrow> (oled_row \<Rightarrow> oled_row) \<Rightarrow> oled_row list \<Rightarrow> oled_row list" where
  "update_oled dev f rows = map (\<lambda>r. if oled_device_id r = dev then f r else r) rows"

definition update_pet :: "string \<Rightarrow> (pet_row \<Rightarrow> pet_row) \<Rightarrow> pet_row list \<Rightarrow> pet_row list" where
  "update_pet dev f rows = map (\<lambda>r. if device_id r = dev then f r else r) rows"

text \<open>
  \<open>init_database\<close>, the part that fills the two tables: a default row for
  \<open>'ESP32_001'\<close> is inserted into a table that has no row at all.
\<close>

definition init_database :: "timestamp \<Rightarrow> server \<Rightarrow> bool outcome \<times> server" where
  "init_database utcnow s =
     (if db_lock s then (Blocks, s)
      else
        let oled = (if oled_display_state s = []
                    then [(default_oled_row DEFAULT_DEVICE utcnow)\<lparr>updated_by := ''system_init''\<rparr>]
                    else oled_display_state s);
            pets = (if pet_state s = [] then [default_pet_row DEFAULT_DEVICE utcnow]
                    else pet_state s)
        in (Returns True, s\<lparr>oled_display_state := oled, pet_state := pets\<rparr>))"

definition empty_server :: server where
  "empty_server = \<lparr>pet_state = [], oled_display_state = [], important_events = [], db_lock = False\<rparr>"

subsection \<open>The display poll\<close>

definition startup_descriptor :: response where
  "startup_descriptor =
     (200, [(''status'', JStr ''success''), (''animation_id'', JInt 0),
            (''animation_name'', JStr ''INFANT''), (''animation_type'', JStr ''pet''),
            (''stage'', JStr ''INFANT''), (''mode'', JStr ''STARTUP_RESET''),
            (''show_home_icon'', JBool False), (''show_food_icon'', JBool False),
            (''show_poop_icon'', JBool False), (''screen_type'', JStr ''MAIN'')])"

text \<open>\<open>bool(v) if v is not None else False\<close>\<close>

definition icon_flag :: "bool option \<Rightarrow> bool" where
  "icon_flag v = (case v of None \<Rightarrow> False | Some b \<Rightarrow> b)"

definition manual_descriptor :: "oled_row \<Rightarrow> response" where
  "manual_descriptor manual_selection =
     (200, [(''status'', JStr ''success''),
            (''animation_id'', JInt (animation_id manual_selection)),
            (''animation_name'', JStr (animation_name manual_selection)),
            (''animation_type'', JStr (animation_type manual_selection)),
            (''stage'', JStr (animation_name manual_selection)),
            (''mode'', JStr ''MANUAL''),
            (''show_home_icon'', JBool (icon_flag (show_home_icon manual_selection))),
            (''show_food_icon'', JBool (icon_flag (show_food_icon manual_selection))),
            (''show_poop_icon'', JBool (icon_flag (show_poop_icon manual_selection))),
            (''screen_type'', JStr (if screen_type manual_selection = [] then ''MAIN''
                                     else screen_type manual_selection))])"

definition default_descriptor :: response where
  "default_descriptor =
     (200, [(''status'', JStr ''success''), (''animation_id'', JInt 1),
            (''stage'', JStr ''CHILD''), (''emotion'', JStr ''IDLE''),
            (''current_emotion'', JStr ''IDLE''), (''current_menu'', JStr ''MAIN''),
            (''health'', JInt 100), (''hunger'', JInt 0), (''cleanliness'', JInt 100),
            (''happiness'', JInt 100), (''energy'', JInt 100), (''poop_present'', JBool False),
            (''show_home_icon'', JBool True), (''show_food_icon'', JBool False),
            (''show_poop_icon'', JBool False), (''screen_type'', JStr ''MAIN''),
            (''mode'', JStr ''DEFAULT'')])"

definition stage_to_id :: "string \<Rightarrow> int" where
  "stage_to_id st =
     (if st = ''INFANT'' then 0
      else if st = ''CHILD'' then 1
      else if st = ''ADULT'' then 2
      else if st = ''OLD'' then 3
      else if st = ''END'' then 3
      else 1)"

definition automatic_descriptor :: "pet_row \<Rightarrow> int \<Rightarrow> string \<Rightarrow> bool \<Rightarrow> response" where
  "automatic_descriptor pet anim_id menu play_eating =
     (200, [(''status'', JStr ''success''),
            (''animation_id'', JInt anim_id),
            (''animation_name'', JStr (stage pet)),
            (''stage'', JStr (stage pet)),
            (''emotion'', JStr (current_emotion pet)),
            (''current_emotion'', JStr (current_emotion pet)),
            (''current_menu'', JStr menu),
            (''health'', JInt (health pet)),
            (''hunger'', JReal (hunger pet)),
            (''cleanliness'', JInt (cleanliness pet)),
            (''happiness'', JInt (happiness pet)),
            (''energy'', JInt (energy pet)),
            (''poop_present'', JBool (poop_present pet)),
            (''age'', JInt (age pet)),
            (''mode'', JStr ''AUTOMATIC''),
            (''is_hungry'', JBool (hunger pet > 70)),
            (''show_home_icon'', JBool True),
            (''show_food_icon'', JBool (hunger pet > 70)),
            (''show_poop_icon'', JBool (poop_present pet)),
            (''screen_type'', JStr menu),
            (''play_eating_animation'', JBool play_eating),
            (''play_cleaning_animation'', JBool False)])"

text \<open>
  A menu transition of the poll: inside \<open>with db_lock\<close> the handler runs its UPDATE,
  commits, and calls \<open>get_pet_state\<close>, which takes \<open>db_lock\<close> itself. When the
  re-read returns no row, building the descriptor raises and the handler answers 500.
\<close>

definition poll_transition ::
    "string \<Rightarrow> (pet_row \<Rightarrow> pet_row) \<Rightarrow> int \<Rightarrow> string \<Rightarrow> bool \<Rightarrow> server
      \<Rightarrow> response outcome \<times> server" where
  "poll_transition dev f anim_id menu play_eating s =
     (let s1 = s\<lparr>db_lock := True\<rparr>;
          s2 = s1\<lparr>pet_state := update_pet dev f (pet_state s1)\<rparr>
      in case get_pet_state dev s2 of
           Blocks \<Rightarrow> (Blocks, s2)
         | Returns None \<Rightarrow> (Returns (500, [(''status'', JStr ''error'')]), s2\<lparr>db_lock := False\<rparr>)
         | Returns (Some pet) \<Rightarrow>
             (Returns (automatic_descriptor pet anim_id menu play_eating), s2\<lparr>db_lock := False\<rparr>))"

text \<open>\<open>/api/oled-display/get\<close>\<close>

definition startup_locked :: "timestamp \<Rightarrow> oled_row \<Rightarrow> bool" where
  "startup_locked utcnow row =
     (updated_by row = ''device_startup'' \<and>
      (case updated_at row of None \<Rightarrow> False | Some updated_time \<Rightarrow> utcnow - updated_time < 5))"

definition get_oled_display :: "string \<Rightarrow> timestamp \<Rightarrow> server \<Rightarrow> response outcome \<times> server" where
  "get_oled_display dev utcnow s =
     (if db_lock s then (Blocks, s)
      else case find (\<lambda>r. oled_device_id r = dev) (oled_display_state s) of
        Some row \<Rightarrow>
          if startup_locked utcnow row then (Returns startup_descriptor, s)
          else (Returns (manual_descriptor row), s)
      | None \<Rightarrow>
          (case get_pet_state dev s of
             Blocks \<Rightarrow> (Blocks, s)
           | Returns None \<Rightarrow> (Returns default_descriptor, s)
           | Returns (Some pet) \<Rightarrow>
               let anim_id = stage_to_id (stage pet);
                   menu = current_menu pet
               in if hunger pet \<le> 50 \<and> menu = ''FOOD_MENU''
                  then poll_transition dev (\<lambda>r. r\<lparr>current_emotion := ''EATING''\<rparr>)
                         anim_id menu True s
                  else if current_emotion pet = ''EATING'' \<and> menu = ''FOOD_MENU''
                  then poll_transition dev (\<lambda>r. r\<lparr>current_menu := ''MAIN'', current_emotion := ''IDLE''\<rparr>)
                         anim_id ''MAIN'' False s
                  else if \<not> poop_present pet \<and> menu = ''TOILET_MENU''
                  then poll_transition dev (\<lambda>r. r\<lparr>current_menu := ''MAIN'', current_emotion := ''IDLE''\<rparr>)
                         anim_id ''MAIN'' False s
                  else (Returns (automatic_descriptor pet anim_id menu False), s)))"

subsection \<open>Writers of the display override\<close>

text \<open>The responses of these handlers are cut down to their status.\<close>

definition ok_response :: response where
  "ok_response = (200, [(''status'', JStr ''success'')])"

definition bad_request :: response where
  "bad_request = (400, [(''status'', JStr ''error'')])"

text \<open>An UPDATE by device id, followed by an INSERT when it selected no row.\<close>

definition upsert_oled ::
    "string \<Rightarrow> (oled_row \<Rightarrow> oled_row) \<Rightarrow> oled_row \<Rightarrow> oled_row list \<Rightarrow> oled_row list" where
  "upsert_oled dev f new_row rows =
     (if filter (\<lambda>r. oled_device_id r = dev) rows = [] then rows @ [new_row]
      else update_oled dev f rows)"



definition reset_oled_display :: "string \<Rightarrow> server \<Rightarrow> response outcome \<times> server" where
  "reset_oled_display dev s =
     (if db_lock s then (Blocks, s)
      else (Returns ok_response,
            s\<lparr>oled_display_state := filter (\<lambda>r. oled_device_id r \<noteq> dev) (oled_display_state s)\<rparr>))"




text \<open>
  \<open>/api/device/startup-complete\<close>: both tables are written by plain UPDATE and
  INSERT statements; column \<open>version\<close> is in neither SET list.
\<close>

definition startup_reset_pet :: "timestamp \<Rightarrow> pet_row \<Rightarrow> pet_row" where
  "startup_reset_pet utcnow r =
     r\<lparr>age := 0, stage := ''INFANT'', health := 100, hunger := 0, cleanliness := 100,
       happiness := 100, energy := 100, poop_present := False, poop_timestamp := None,
       digestion_due_time := None, current_menu := ''MAIN'', current_emotion := ''IDLE'',
       emotion_expire_at := None, action_lock := False, last_feed_time := None,
       last_play_time := None, last_sleep_time := None, last_clean_time := None,
       last_age_increment := Some utcnow\<rparr>"

definition upsert_pet ::
    "string \<Rightarrow> (pet_row \<Rightarrow> pet_row) \<Rightarrow> pet_row \<Rightarrow> pet_row list \<Rightarrow> pet_row list" where
  "upsert_pet dev f new_row rows =
     (if filter (\<lambda>r. device_id r = dev) rows = [] then rows @ [new_row]
      else update_pet dev f rows)"

definition device_startup_complete ::
    "string \<Rightarrow> timestamp \<Rightarrow> server \<Rightarrow> response outcome \<times> server" where
  "device_startup_complete dev utcnow s =
     (if db_lock s then (Blocks, s)
      else (Returns (200, [(''status'', JStr ''success''), (''animation_id'', JInt 0),
                           (''animation_name'', JStr ''INFANT''), (''show_home_icon'', JBool False),
                           (''screen_type'', JStr ''MAIN''), (''current_menu'', JStr ''MAIN'')]),
            s\<lparr>oled_display_state :=
                upsert_oled dev
                  (\<lambda>r. r\<lparr>animation_id := 0, animation_name := ''INFANT'', animation_type := ''pet'',
                          show_home_icon := Some False, show_food_icon := Some False,
                          show_poop_icon := Some False, screen_type := ''MAIN'',
                          updated_at := Some utcnow, updated_by := ''device_startup''\<rparr>)
                  ((default_oled_row dev utcnow)\<lparr>animation_id := 0, animation_name := ''INFANT'',
                      animation_type := ''pet'', show_home_icon := Some False,
                      screen_type := ''MAIN'', updated_by := ''device_startup''\<rparr>)
                  (oled_display_state s),
              pet_state :=
                upsert_pet dev (startup_reset_pet utcnow) (default_pet_row dev utcnow) (pet_state s)\<rparr>))"

text \<open>\<open>/api/oled-display/menu-switch\<close>\<close>

definition switch_menu :: "string \<Rightarrow> string \<Rightarrow> server \<Rightarrow> response outcome \<times> server" where
  "switch_menu dev menu s =
     (if menu \<notin> set [''MAIN'', ''FOOD_MENU'', ''TOILET_MENU''] then (Returns bad_request, s)
      else if db_lock s then (Blocks, s)
      else (Returns (200, [(''status'', JStr ''success''), (''current_menu'', JStr menu)]),
            s\<lparr>pet_state := update_pet dev (\<lambda>r. r\<lparr>current_menu := menu\<rparr>) (pet_state s)\<rparr>))"

text \<open>Vocabulary for the theorems about the poll.\<close>

definition override_row :: "string \<Rightarrow> server \<Rightarrow> oled_row option" where
  "override_row dev s = find (\<lambda>r. oled_device_id r = dev) (oled_display_state s)"

definition menu_transition_pending :: "pet_row \<Rightarrow> bool" where
  "menu_transition_pending pet =
     (current_menu pet = ''FOOD_MENU'' \<and> (hunger pet \<le> 50 \<or> current_emotion pet = ''EATING'')
      \<or> current_menu pet = ''TOILET_MENU'' \<and> \<not> poop_present pet)"

definition body_field :: "response \<Rightarrow> string \<Rightarrow> json option" where
  "body_field resp key = map_of (snd resp) key"

section \<open>Write paths and request histories\<close>

text \<open>
  The statements of \<open>src/app.py\<close> that write table \<open>pet_state\<close>: the UPDATE of
  \<open>update_pet_state_atomic\<close>, the UPDATE and INSERT of the startup handler, the
  UPDATE of \<open>switch_menu\<close>, the UPDATEs of the poll's menu transitions and the INSERT
  of \<open>init_database\<close>.
\<close>

datatype pet_write =
    Write_atomic string "field_update list"
  | Write_startup string timestamp
  | Write_switch_menu string string
  | Write_display_poll string timestamp
  | Write_init timestamp

fun apply_write :: "pet_write \<Rightarrow> server \<Rightarrow> server" where
  "apply_write (Write_atomic dev update_fields) s = snd (update_pet_state_atomic dev update_fields s)"
| "apply_write (Write_startup dev utcnow) s = snd (device_startup_complete dev utcnow s)"
| "apply_write (Write_switch_menu dev menu) s = snd (switch_menu dev menu s)"
| "apply_write (Write_display_poll dev utcnow) s = snd (get_oled_display dev utcnow s)"
| "apply_write (Write_init utcnow) s = snd (init_database utcnow s)"

text \<open>Whether a write is a call of \<open>update_pet_state_atomic\<close> for \<open>dev\<close> that returns a state.\<close>

fun commits :: "string \<Rightarrow> pet_write \<Rightarrow> server \<Rightarrow> bool" where
  "commits dev (Write_atomic d update_fields) s =
     (d = dev \<and> (case fst (update_pet_state_atomic d update_fields s) of
                    Returns (Some _) \<Rightarrow> True | _ \<Rightarrow> False))"
| "commits dev _ s = False"

fun run_writes :: "pet_write list \<Rightarrow> server \<Rightarrow> server" where
  "run_writes [] s = s"
| "run_writes (w # ws) s = run_writes ws (apply_write w s)"

fun count_commits :: "string \<Rightarrow> pet_write list \<Rightarrow> server \<Rightarrow> nat" where
  "count_commits dev [] s = 0"
| "count_commits dev (w # ws) s =
     (if commits dev w s then 1 else 0) + count_commits dev ws (apply_write w s)"

definition is_atomic :: "pet_write \<Rightarrow> bool" where
  "is_atomic w = (case w of Write_atomic _ _ \<Rightarrow> True | _ \<Rightarrow> False)"

text \<open>The version a device's row holds; 0 stands for a device that has no row yet.\<close>

definition stored_version :: "string \<Rightarrow> server \<Rightarrow> int" where
  "stored_version dev s = (case stored dev s of None \<Rightarrow> 0 | Some r \<Rightarrow> version r)"

text \<open>
  A step that keeps a device's version: an existing row stays, with its version; a row
  that appears has version 0.
\<close>

definition keeps_version :: "string \<Rightarrow> server \<Rightarrow> server \<Rightarrow> bool" where
  "keeps_version dev s s' =
     (case stored dev s of
        None \<Rightarrow> (case stored dev s' of None \<Rightarrow> True | Some r \<Rightarrow> version r = 0)
      | Some r0 \<Rightarrow> (case stored dev s' of None \<Rightarrow> False | Some r \<Rightarrow> version r = version r0))"

subsection \<open>Request histories\<close>








text \<open>
  What the pet handlers leave alone: they go through \<open>update_pet_state_atomic\<close>,
  which rewrites one row of one device and touches neither the other table nor,
  when it returns, the lock.
\<close>

definition pet_frame :: "server \<Rightarrow> server \<Rightarrow> bool" where
  "pet_frame s s' =
     (map device_id (pet_state s') = map device_id (pet_state s)
      \<and> oled_display_state s' = oled_display_state s
      \<and> db_lock s' = db_lock s)"


section \<open>One call of the atomic update among other threads\<close>

text \<open>
  The handlers above are sequential: each runs alone. To state what \<open>db_lock\<close> buys,
  one call of \<open>update_pet_state_atomic\<close> is cut at its statements (take the lock,
  SELECT, UPDATE and release) and interleaved with steps of other threads. Every
  statement of \<open>src/app.py\<close> that writes \<open>pet_state\<close> stands inside
  \<open>with db_lock\<close>, so another thread takes the lock when it is free, writes the
  table in any way while it holds it, and releases it.
\<close>

datatype lock_holder = Lock_free | Held_by_caller | Held_by_other

datatype upsa_pc =
    At_start
  | Has_lock
  | Has_read nat pet_row
  | Retrying
  | Returned "pet_row option"

record upsa_config =
  cfg_rows :: "pet_row list"
  cfg_lock :: lock_holder
  cfg_pc :: upsa_pc
  cfg_reads :: nat
  cfg_writes :: nat
  cfg_read :: "pet_row option"

text \<open>
  \<open>cfg_reads\<close> and \<open>cfg_writes\<close> count the SELECTs the call has run and the
  UPDATEs of it that changed a row; \<open>cfg_read\<close> keeps the row its SELECT returned. \<open>Retrying\<close> is the branch for a row count of 0:
  the recursive call, made with the lock held.
\<close>

inductive upsa_step :: "string \<Rightarrow> field_update list \<Rightarrow> upsa_config \<Rightarrow> upsa_config \<Rightarrow> bool"
  for dev :: string and update_fields :: "field_update list" where
  acquire:
    "cfg_pc c = At_start \<Longrightarrow> cfg_lock c = Lock_free \<Longrightarrow>
       upsa_step dev update_fields c (c\<lparr>cfg_lock := Held_by_caller, cfg_pc := Has_lock\<rparr>)"
| select_none:
    "cfg_pc c = Has_lock \<Longrightarrow> select_current dev (cfg_rows c) = None \<Longrightarrow>
       upsa_step dev update_fields c
         (c\<lparr>cfg_lock := Lock_free, cfg_pc := Returned None, cfg_reads := Suc (cfg_reads c)\<rparr>)"
| select_row:
    "cfg_pc c = Has_lock \<Longrightarrow> select_current dev (cfg_rows c) = Some (i, current_state) \<Longrightarrow>
       upsa_step dev update_fields c
         (c\<lparr>cfg_pc := Has_read i current_state, cfg_reads := Suc (cfg_reads c),
            cfg_read := Some current_state\<rparr>)"
| update_commit:
    "cfg_pc c = Has_read i current_state \<Longrightarrow>
     update_where_id_version i (version current_state)
        (merge_updates current_state update_fields) (cfg_rows c) = (rowcount, rows') \<Longrightarrow>
     rowcount \<noteq> 0 \<Longrightarrow>
       upsa_step dev update_fields c
         (c\<lparr>cfg_rows := rows', cfg_lock := Lock_free,
            cfg_pc := Returned (Some (merge_updates current_state update_fields)),
            cfg_writes := Suc (cfg_writes c)\<rparr>)"
| update_conflict:
    "cfg_pc c = Has_read i current_state \<Longrightarrow>
     update_where_id_version i (version current_state)
        (merge_updates current_state update_fields) (cfg_rows c) = (0, rows') \<Longrightarrow>
       upsa_step dev update_fields c (c\<lparr>cfg_pc := Retrying\<rparr>)"
| other_acquire:
    "cfg_lock c = Lock_free \<Longrightarrow> upsa_step dev update_fields c (c\<lparr>cfg_lock := Held_by_other\<rparr>)"
| other_write:
    "cfg_lock c = Held_by_other \<Longrightarrow> upsa_step dev update_fields c (c\<lparr>cfg_rows := rows'\<rparr>)"
| other_release:
    "cfg_lock c = Held_by_other \<Longrightarrow> upsa_step dev update_fields c (c\<lparr>cfg_lock := Lock_free\<rparr>)"

code_pred upsa_step .

definition upsa_initial :: "upsa_config \<Rightarrow> bool" where
  "upsa_initial c =
     (cfg_pc c = At_start \<and> cfg_lock c = Lock_free \<and> cfg_reads c = 0 \<and> cfg_writes c = 0)"

text \<open>What holds at every point of the call, whatever the other threads do.\<close>

definition upsa_inv :: "string \<Rightarrow> field_update list \<Rightarrow> upsa_config \<Rightarrow> bool" where
  "upsa_inv dev update_fields c =
     (case cfg_pc c of
        At_start \<Rightarrow> cfg_reads c = 0 \<and> cfg_writes c = 0
      | Has_lock \<Rightarrow> cfg_lock c = Held_by_caller \<and> cfg_reads c = 0 \<and> cfg_writes c = 0
      | Has_read i current_state \<Rightarrow>
          cfg_lock c = Held_by_caller \<and> select_current dev (cfg_rows c) = Some (i, current_state)
          \<and> cfg_reads c = 1 \<and> cfg_writes c = 0 \<and> cfg_read c = Some current_state
      | Retrying \<Rightarrow> False
      | Returned None \<Rightarrow> cfg_reads c = 1 \<and> cfg_writes c = 0
      | Returned (Some new_state) \<Rightarrow>
          cfg_reads c = 1 \<and> cfg_writes c = 1
          \<and> (case cfg_read c of None \<Rightarrow> False
              | Some current_state \<Rightarrow>
                  device_id current_state = dev
                  \<and> new_state = merge_updates current_state update_fields))"

section \<open>Concrete inputs\<close>

text \<open>A healthy, happy pet that has just been fed: EATING is locked until time 3.\<close>

definition snapshot_fed :: pet_row where
  "snapshot_fed = (default_pet_row ''ESP32_001'' 0)\<lparr>current_emotion := ''EATING'',
      emotion_expire_at := Some 3\<rparr>"

text \<open>An event table whose only event has been acknowledged already.\<close>

definition acknowledged_event :: event_row where
  "acknowledged_event = \<lparr>event_id = 1, event_device_id = ''ESP32_001'',
      event_type = ''high_sound'', created_at = 0, is_sent = True\<rparr>"

definition server_with_acknowledged_event :: server where
  "server_with_acknowledged_event = empty_server\<lparr>important_events := [acknowledged_event]\<rparr>"




text \<open>The server after \<open>init_database\<close> on an empty database at time 0.\<close>

definition fresh_server :: server where
  "fresh_server = snd (init_database 0 empty_server)"


text \<open>
  The fresh server after the display has been reset to automatic mode and the menu
  switched to \<open>FOOD_MENU\<close>: no override row, a pet row with hunger 0.
\<close>

definition food_menu_server :: server where
  "food_menu_server =
     snd (switch_menu ''ESP32_001'' ''FOOD_MENU'' (snd (reset_oled_display ''ESP32_001'' fresh_server)))"

text \<open>
  A history of writes for \<open>ESP32_001\<close> from an empty database: creation, an atomic
  update, a menu switch, a startup reset and another atomic update.
\<close>

definition example_writes :: "pet_write list" where
  "example_writes =
     [Write_init 0,
      Write_atomic ''ESP32_001'' [Upd_hunger 5],
      Write_switch_menu ''ESP32_001'' ''FOOD_MENU'',
      Write_startup ''ESP32_001'' 10,
      Write_atomic ''ESP32_001'' [Upd_energy 7]]"


text \<open>
  A call for \<open>ESP32_001\<close> that has taken the lock and read the default row, after
  another thread has written the table.
\<close>

definition config_start :: upsa_config where
  "config_start = \<lparr>cfg_rows = [], cfg_lock = Lock_free, cfg_pc = At_start,
      cfg_reads = 0, cfg_writes = 0, cfg_read = None\<rparr>"

definition config_read :: upsa_config where
  "config_read = \<lparr>cfg_rows = [default_pet_row ''ESP32_001'' 0], cfg_lock = Held_by_caller,
      cfg_pc = Has_read 0 (default_pet_row ''ESP32_001'' 0),
      cfg_reads = 1, cfg_writes = 0, cfg_read = Some (default_pet_row ''ESP32_001'' 0)\<rparr>"

section \<open>Emotion priority\<close>

lemma get_emotion_priority_locked:
  "emotion_locked now s \<Longrightarrow> get_emotion_priority now s = current_emotion s"
  by (simp add: get_emotion_priority_def emotion_locked_def)

lemma get_emotion_priority_unlocked:
  assumes "\<not> emotion_locked now s"
  shows "get_emotion_priority now s =
     (if health s < 40 then ''SICK''
      else if poop_present s then (if poop_neglected now s then ''SICK'' else ''POOP'')
      else if 70 < hunger s then (if stage s = ''INFANT'' then ''CRY'' else ''HUNGER'')
      else if energy s < 30 then ''SLEEP''
      else if 80 < happiness s then ''HAPPY''
      else if happiness s < 40 then ''SAD''
      else ''IDLE'')"
  using assms
  by (simp add: get_emotion_priority_def emotion_locked_def poop_neglected_def)

text \<open>
  C2 (amended). \<open>get_emotion_priority\<close> returns one emotion for every snapshot and every
  clock reading, by strict precedence: an emotion lock that expires after the clock
  reading keeps the current emotion; else health below 40 gives SICK; else a present
  poop gives SICK when its time stamp is more than 15 minutes old and POOP otherwise;
  else hunger above 70 gives CRY for stage INFANT and HUNGER otherwise; else energy
  below 30 gives SLEEP; else happiness above 80 gives HAPPY, below 40 SAD, and anything
  else IDLE. The result is a function of the snapshot together with the clock reading
  \<open>datetime.now()\<close> taken inside the call, not of the snapshot alone.
\<close>

theorem emotion_priority_precedence:
  "(emotion_locked now s \<longrightarrow> get_emotion_priority now s = current_emotion s)
   \<and> (\<not> emotion_locked now s \<and> health s < 40 \<longrightarrow> get_emotion_priority now s = ''SICK'')
   \<and> (\<not> emotion_locked now s \<and> \<not> health s < 40 \<and> poop_present s \<and> poop_neglected now s
        \<longrightarrow> get_emotion_priority now s = ''SICK'')
   \<and> (\<not> emotion_locked now s \<and> \<not> health s < 40 \<and> poop_present s \<and> \<not> poop_neglected now s
        \<longrightarrow> get_emotion_priority now s = ''POOP'')
   \<and> (\<not> emotion_locked now s \<and> \<not> health s < 40 \<and> \<not> poop_present s \<and> 70 < hunger s
        \<and> stage s = ''INFANT'' \<longrightarrow> get_emotion_priority now s = ''CRY'')
   \<and> (\<not> emotion_locked now s \<and> \<not> health s < 40 \<and> \<not> poop_present s \<and> 70 < hunger s
        \<and> stage s \<noteq> ''INFANT'' \<longrightarrow> get_emotion_priority now s = ''HUNGER'')
   \<and> (\<not> emotion_locked now s \<and> \<not> health s < 40 \<and> \<not> poop_present s \<and> \<not> 70 < hunger s
        \<and> energy s < 30 \<longrightarrow> get_emotion_priority now s = ''SLEEP'')
   \<and> (\<not> emotion_locked now s \<and> \<not> health s < 40 \<and> \<not> poop_present s \<and> \<not> 70 < hunger s
        \<and> \<not> energy s < 30 \<and> 80 < happiness s \<longrightarrow> get_emotion_priority now s = ''HAPPY'')
   \<and> (\<not> emotion_locked now s \<and> \<not> health s < 40 \<and> \<not> poop_present s \<and> \<not> 70 < hunger s
        \<and> \<not> energy s < 30 \<and> \<not> 80 < happiness s \<and> happiness s < 40
        \<longrightarrow> get_emotion_priority now s = ''SAD'')
   \<and> (\<not> emotion_locked now s \<and> \<not> health s < 40 \<and> \<not> poop_present s \<and> \<not> 70 < hunger s
        \<and> \<not> energy s < 30 \<and> \<not> 80 < happiness s \<and> \<not> happiness s < 40
        \<longrightarrow> get_emotion_priority now s = ''IDLE'')"
proof (cases "emotion_locked now s")
  case True
  then show ?thesis by (simp add: get_emotion_priority_locked)
next
  case False
  show ?thesis unfolding get_emotion_priority_unlocked [OF False] using False by simp
qed

text \<open>
  The theorem at ten snapshots, one for each rule: the fed snapshot at time 1 (lock
  holds) and at time 5 (lock expired, happiness decides), and variants of the default
  row read at time 1000.
\<close>

theorem emotion_priority_precedence_witness:
  "get_emotion_priority 1 snapshot_fed = ''EATING''
   \<and> get_emotion_priority 5 snapshot_fed = ''HAPPY''
   \<and> get_emotion_priority 1000 ((default_pet_row ''D'' 0)\<lparr>health := 30\<rparr>) = ''SICK''
   \<and> get_emotion_priority 1000
        ((default_pet_row ''D'' 0)\<lparr>poop_present := True, poop_timestamp := Some 0\<rparr>) = ''SICK''
   \<and> get_emotion_priority 1000
        ((default_pet_row ''D'' 0)\<lparr>poop_present := True, poop_timestamp := Some 500\<rparr>) = ''POOP''
   \<and> get_emotion_priority 1000 ((default_pet_row ''D'' 0)\<lparr>hunger := 80\<rparr>) = ''CRY''
   \<and> get_emotion_priority 1000
        ((default_pet_row ''D'' 0)\<lparr>hunger := 80, stage := ''CHILD''\<rparr>) = ''HUNGER''
   \<and> get_emotion_priority 1000 ((default_pet_row ''D'' 0)\<lparr>energy := 20\<rparr>) = ''SLEEP''
   \<and> get_emotion_priority 1000 ((default_pet_row ''D'' 0)\<lparr>happiness := 30\<rparr>) = ''SAD''
   \<and> get_emotion_priority 1000 ((default_pet_row ''D'' 0)\<lparr>happiness := 50\<rparr>) = ''IDLE''"
proof -
  note defs = emotion_locked_def poop_neglected_def snapshot_fed_def default_pet_row_def
  from emotion_priority_precedence [of 1 snapshot_fed]
  have e1: "get_emotion_priority 1 snapshot_fed = ''EATING''" by (simp add: defs)
  from emotion_priority_precedence [of 5 snapshot_fed]
  have e2: "get_emotion_priority 5 snapshot_fed = ''HAPPY''" by (simp add: defs)
  from emotion_priority_precedence [of 1000 "(default_pet_row ''D'' 0)\<lparr>health := 30\<rparr>"]
  have e3: "get_emotion_priority 1000 ((default_pet_row ''D'' 0)\<lparr>health := 30\<rparr>) = ''SICK''"
    by (simp add: defs)
  from emotion_priority_precedence
    [of 1000 "(default_pet_row ''D'' 0)\<lparr>poop_present := True, poop_timestamp := Some 0\<rparr>"]
  have e4: "get_emotion_priority 1000
        ((default_pet_row ''D'' 0)\<lparr>poop_present := True, poop_timestamp := Some 0\<rparr>) = ''SICK''"
    by (simp add: defs)
  from emotion_priority_precedence
    [of 1000 "(default_pet_row ''D'' 0)\<lparr>poop_present := True, poop_timestamp := Some 500\<rparr>"]
  have e5: "get_emotion_priority 1000
        ((default_pet_row ''D'' 0)\<lparr>poop_present := True, poop_timestamp := Some 500\<rparr>) = ''POOP''"
    by (simp add: defs)
  from emotion_priority_precedence [of 1000 "(default_pet_row ''D'' 0)\<lparr>hunger := 80\<rparr>"]
  have e6: "get_emotion_priority 1000 ((default_pet_row ''D'' 0)\<lparr>hunger := 80\<rparr>) = ''CRY''"
    by (simp add: defs)
  from emotion_priority_precedence
    [of 1000 "(default_pet_row ''D'' 0)\<lparr>hunger := 80, stage := ''CHILD''\<rparr>"]
  have e7: "get_emotion_priority 1000
        ((default_pet_row ''D'' 0)\<lparr>hunger := 80, stage := ''CHILD''\<rparr>) = ''HUNGER''"
    by (simp add: defs)
  from emotion_priority_precedence [of 1000 "(default_pet_row ''D'' 0)\<lparr>energy := 20\<rparr>"]
  have e8: "get_emotion_priority 1000 ((default_pet_row ''D'' 0)\<lparr>energy := 20\<rparr>) = ''SLEEP''"
    by (simp add: defs)
  from emotion_priority_precedence [of 1000 "(default_pet_row ''D'' 0)\<lparr>happiness := 30\<rparr>"]
  have e9: "get_emotion_priority 1000 ((default_pet_row ''D'' 0)\<lparr>happiness := 30\<rparr>) = ''SAD''"
    by (simp add: defs)
  from emotion_priority_precedence [of 1000 "(default_pet_row ''D'' 0)\<lparr>happiness := 50\<rparr>"]
  have e10: "get_emotion_priority 1000 ((default_pet_row ''D'' 0)\<lparr>happiness := 50\<rparr>) = ''IDLE''"
    by (simp add: defs)
  from e1 e2 e3 e4 e5 e6 e7 e8 e9 e10 show ?thesis by blast
qed

text \<open>
  C2 as stated fails: one snapshot, read at two times, yields two emotions.
\<close>

theorem emotion_priority_snapshot_counterexample:
  "get_emotion_priority 1 snapshot_fed \<noteq> get_emotion_priority 5 snapshot_fed"
  by (simp add: get_emotion_priority_def snapshot_fed_def default_pet_row_def)

section \<open>Acknowledging important events\<close>

lemma mark_event_received_missing_id:
  "req_event_id data = None \<Longrightarrow>
     mark_event_received data s = (Returns (400, [(''status'', JStr ''error'')]), s)"
  by (simp add: mark_event_received_def)

lemma map_unselected:
  "filter P xs = [] \<Longrightarrow> map (\<lambda>e. if P e then f e else e) xs = xs"
  by (induction xs) (auto split: if_splits)

lemma mark_event_received_unknown:
  assumes "req_event_id data = Some eid" "\<not> db_lock s"
    and "\<forall>e \<in> set (important_events s).
           \<not> (event_id e = eid \<and>
              event_device_id e = (case req_device_id data of None \<Rightarrow> DEFAULT_DEVICE | Some d \<Rightarrow> d))"
  shows "mark_event_received data s =
           (Returns (404, [(''status'', JStr ''error''), (''event_id'', JInt eid)]), s)"
proof -
  let ?P = "\<lambda>e. event_id e = eid \<and>
      event_device_id e = (case req_device_id data of None \<Rightarrow> DEFAULT_DEVICE | Some d \<Rightarrow> d)"
  from assms(3) have none: "filter ?P (important_events s) = []"
    by (simp add: filter_empty_conv)
  from map_unselected [OF none]
  have "map (\<lambda>e. if ?P e then e\<lparr>is_sent := True\<rparr> else e) (important_events s) = important_events s" .
  with none assms(1,2) show ?thesis
    by (simp add: mark_event_received_def Let_def)
qed

lemma mark_event_received_known:
  assumes "req_event_id data = Some eid" "\<not> db_lock s" "e \<in> set (important_events s)"
    and "event_id e = eid"
    and "event_device_id e = (case req_device_id data of None \<Rightarrow> DEFAULT_DEVICE | Some d \<Rightarrow> d)"
  shows "fst (mark_event_received data s) =
           Returns (200, [(''status'', JStr ''success''), (''event_id'', JInt eid)])"
    and "e\<lparr>is_sent := True\<rparr> \<in> set (important_events (snd (mark_event_received data s)))"
proof -
  let ?P = "\<lambda>e. event_id e = eid \<and>
      event_device_id e = (case req_device_id data of None \<Rightarrow> DEFAULT_DEVICE | Some d \<Rightarrow> d)"
  from assms(3-5) have "e \<in> set (filter ?P (important_events s))" by simp
  then have "filter ?P (important_events s) \<noteq> []" by (metis empty_iff empty_set)
  then have pos: "length (filter ?P (important_events s)) > 0" by simp
  with assms(1,2) show "fst (mark_event_received data s) =
           Returns (200, [(''status'', JStr ''success''), (''event_id'', JInt eid)])"
    by (simp add: mark_event_received_def Let_def)
  have "e\<lparr>is_sent := True\<rparr> \<in> (\<lambda>e. if ?P e then e\<lparr>is_sent := True\<rparr> else e) ` set (important_events s)"
    using assms(3-5) by (intro image_eqI [where x = e]) simp_all
  with pos assms(1,2)
  show "e\<lparr>is_sent := True\<rparr> \<in> set (important_events (snd (mark_event_received data s)))"
    by (simp add: mark_event_received_def Let_def)
qed

text \<open>
  C7. Acknowledging an event that is already marked sent: the UPDATE selects the row by
  id and device alone, its row count is 1, and the handler answers 200 with status
  \<open>success\<close>, where the claim (and the handler's own message for the other branch,
  "Event not found or already processed") has a 404 failure.
\<close>

theorem mark_event_received_already_sent:
  "mark_event_received \<lparr>req_event_id = Some 1, req_device_id = None\<rparr> server_with_acknowledged_event
     = (Returns (200, [(''status'', JStr ''success''), (''event_id'', JInt 1)]),
        server_with_acknowledged_event)"
  by (simp add: mark_event_received_def server_with_acknowledged_event_def empty_server_def
      acknowledged_event_def DEFAULT_DEVICE_def)

section \<open>Step detection\<close>














section \<open>The pet table and its atomic update\<close>

lemma first_index_SomeD:
  "first_index P xs = Some i \<Longrightarrow> i < length xs \<and> P (xs ! i)"
  by (induction xs arbitrary: i) (auto split: if_splits)

lemma find_first_index:
  "find P xs = map_option (\<lambda>i. xs ! i) (first_index P xs)"
  by (induction xs) (auto simp: option.map_comp comp_def)

lemma first_index_None: "first_index P xs = None \<longleftrightarrow> find P xs = None"
  by (simp add: find_first_index)

lemma first_index_update:
  "first_index P xs = Some i \<Longrightarrow> P y \<Longrightarrow> first_index P (xs[i := y]) = Some i"
  by (induction xs arbitrary: i) (auto split: if_splits)

lemma find_update_first:
  "first_index P xs = Some i \<Longrightarrow> P y \<Longrightarrow> find P (xs[i := y]) = Some y"
  using first_index_update [of P xs i y] first_index_SomeD [of P xs i]
  by (simp add: find_first_index)

lemma find_update_other:
  "i < length xs \<Longrightarrow> \<not> Q (xs ! i) \<Longrightarrow> \<not> Q y \<Longrightarrow> find Q (xs[i := y]) = find Q xs"
proof (induction xs arbitrary: i)
  case Nil
  then show ?case by simp
next
  case (Cons x xs)
  then show ?case by (cases i) auto
qed

lemma device_id_apply_field [simp]: "device_id (apply_field u r) = device_id r"
  by (cases u) simp_all

lemma device_id_merge_fields [simp]: "device_id (merge_fields r us) = device_id r"
  unfolding merge_fields_def by (induction us arbitrary: r) simp_all

lemma device_id_merge_updates [simp]: "device_id (merge_updates r us) = device_id r"
  by (simp add: merge_updates_def)

lemma version_merge_updates [simp]: "version (merge_updates r us) = version r + 1"
  by (simp add: merge_updates_def)

lemma merge_updates_keeps_device_id:
  "(merge_updates r us)\<lparr>device_id := device_id r\<rparr> = merge_updates r us"
proof -
  have "(merge_updates r us)\<lparr>device_id := device_id (merge_updates r us)\<rparr> = merge_updates r us"
    by simp
  then show ?thesis by (simp only: device_id_merge_updates)
qed

lemma stored_device_id: "stored dev s = Some r \<Longrightarrow> device_id r = dev"
  unfolding stored_def by (auto dest: find_Some_iff [THEN iffD1])


lemma update_pet_state_atomic_missing:
  "\<not> db_lock s \<Longrightarrow> stored dev s = None \<Longrightarrow> update_pet_state_atomic dev us s = (Returns None, s)"
  by (simp add: update_pet_state_atomic_def select_current_def stored_def first_index_None [symmetric])

lemma update_pet_state_atomic_found:
  assumes "\<not> db_lock s" "stored dev s = Some cur"
  obtains i where "first_index (\<lambda>r. device_id r = dev) (pet_state s) = Some i"
    and "pet_state s ! i = cur"
    and "update_pet_state_atomic dev us s
          = (Returns (Some (merge_updates cur us)),
             s\<lparr>pet_state := (pet_state s)[i := merge_updates cur us]\<rparr>)"
proof -
  from assms(2) obtain i where i: "first_index (\<lambda>r. device_id r = dev) (pet_state s) = Some i"
    and cur: "pet_state s ! i = cur"
    by (auto simp: stored_def find_first_index)
  from first_index_SomeD [OF i] have len: "i < length (pet_state s)" by simp
  have "update_pet_state_atomic dev us s
          = (Returns (Some (merge_updates cur us)),
             s\<lparr>pet_state := (pet_state s)[i := merge_updates cur us]\<rparr>)"
    using assms(1) i cur len
    by (simp add: update_pet_state_atomic_def select_current_def update_where_id_version_def
        Let_def merge_updates_keeps_device_id)
  with i cur that show ?thesis by blast
qed

lemma update_pet_state_atomic_effect:
  assumes "\<not> db_lock s" "stored dev s = Some cur"
  shows "fst (update_pet_state_atomic dev us s) = Returns (Some (merge_updates cur us))"
    and "stored dev (snd (update_pet_state_atomic dev us s)) = Some (merge_updates cur us)"
    and "\<not> db_lock (snd (update_pet_state_atomic dev us s))"
    and "d \<noteq> dev \<Longrightarrow> stored d (snd (update_pet_state_atomic dev us s)) = stored d s"
    and "oled_display_state (snd (update_pet_state_atomic dev us s)) = oled_display_state s"
    and "important_events (snd (update_pet_state_atomic dev us s)) = important_events s"
proof -
  from update_pet_state_atomic_found [OF assms, of us] obtain i
    where i: "first_index (\<lambda>r. device_id r = dev) (pet_state s) = Some i"
      and cur: "pet_state s ! i = cur"
      and eq: "update_pet_state_atomic dev us s
          = (Returns (Some (merge_updates cur us)),
             s\<lparr>pet_state := (pet_state s)[i := merge_updates cur us]\<rparr>)"
    by blast
  from first_index_SomeD [OF i] cur have len: "i < length (pet_state s)" and dev: "device_id cur = dev"
    by simp_all
  show "fst (update_pet_state_atomic dev us s) = Returns (Some (merge_updates cur us))"
    by (simp add: eq)
  show "stored dev (snd (update_pet_state_atomic dev us s)) = Some (merge_updates cur us)"
    using find_update_first [OF i, of "merge_updates cur us"] dev
    by (simp add: eq stored_def)
  show "\<not> db_lock (snd (update_pet_state_atomic dev us s))"
    using assms(1) by (simp add: eq)
  show "stored d (snd (update_pet_state_atomic dev us s)) = stored d s" if "d \<noteq> dev"
    using find_update_other [OF len, of "\<lambda>r. device_id r = d" "merge_updates cur us"] that dev cur
    by (simp add: eq stored_def)
  show "oled_display_state (snd (update_pet_state_atomic dev us s)) = oled_display_state s"
    by (simp add: eq)
  show "important_events (snd (update_pet_state_atomic dev us s)) = important_events s"
    by (simp add: eq)
qed

section \<open>Feeding\<close>

lemma fed_merge:
  "fed now state (merge_updates cur (feed_updates now state))"
  "fed now state (merge_updates cur (feed_updates now state @ [Upd_action_lock b]))"
  by (simp_all add: fed_def merge_updates_def merge_fields_def feed_updates_def)

lemma update_pet_state_atomic_step:
  assumes "\<not> db_lock s" "stored dev s = Some cur"
  obtains s' where "update_pet_state_atomic dev us s = (Returns (Some (merge_updates cur us)), s')"
    and "stored dev s' = Some (merge_updates cur us)" and "\<not> db_lock s'"
proof -
  note e = update_pet_state_atomic_effect(1-3) [OF assms, of us]
  obtain res s' where u: "update_pet_state_atomic dev us s = (res, s')"
    by (cases "update_pet_state_atomic dev us s")
  with e that show ?thesis by simp
qed

lemma pet_feed_effect:
  assumes "\<not> db_lock s" "stored dev s = Some state"
  shows "\<exists>r. stored dev (snd (pet_feed dev now s)) = Some r \<and> fed now state r
            \<and> \<not> db_lock (snd (pet_feed dev now s))
            \<and> fst (pet_feed dev now s)
                = Returns (200, [(''status'', JStr ''success''), (''hunger'', JReal (hunger r)),
                                 (''emotion'', JStr (current_emotion r)),
                                 (''digestion_due'', json_time (digestion_due_time r))])"
proof -
  let ?cur1 = "merge_updates state [Upd_action_lock True]"
  let ?us = "feed_updates now state @ [Upd_action_lock False]"
  let ?r = "merge_updates ?cur1 ?us"
  from update_pet_state_atomic_step [OF assms, of "[Upd_action_lock True]"] obtain s1
    where u1: "update_pet_state_atomic dev [Upd_action_lock True] s = (Returns (Some ?cur1), s1)"
      and s1: "stored dev s1 = Some ?cur1" "\<not> db_lock s1" by blast
  from update_pet_state_atomic_step [OF s1(2) s1(1), of ?us] obtain s2
    where u2: "update_pet_state_atomic dev ?us s1 = (Returns (Some ?r), s2)"
      and s2: "stored dev s2 = Some ?r" "\<not> db_lock s2" by blast
  have run: "pet_feed dev now s
      = (Returns (200, [(''status'', JStr ''success''), (''hunger'', JReal (hunger ?r)),
                        (''emotion'', JStr (current_emotion ?r)),
                        (''digestion_due'', json_time (digestion_due_time ?r))]), s2)"
    unfolding pet_feed_def then_update_def
    using assms by (simp add: get_pet_state_def stored_def u1 u2)
  have "fed now state ?r" by (rule fed_merge(2))
  with s2 show ?thesis unfolding run by auto
qed

lemma upload_binary_image_effect:
  assumes "\<not> db_lock s" "stored dev s = Some state"
  shows "\<exists>r. stored dev (snd (upload_binary_image dev True now s)) = Some r \<and> fed now state r
            \<and> \<not> db_lock (snd (upload_binary_image dev True now s))"
proof -
  let ?r = "merge_updates state (feed_updates now state)"
  from update_pet_state_atomic_step [OF assms, of "feed_updates now state"] obtain s1
    where u: "update_pet_state_atomic dev (feed_updates now state) s = (Returns (Some ?r), s1)"
      and s1: "stored dev s1 = Some ?r" "\<not> db_lock s1" by blast
  have run: "snd (upload_binary_image dev True now s) = s1"
    unfolding upload_binary_image_def
    using assms by (simp add: get_pet_state_def stored_def u)
  have "fed now state ?r" by (rule fed_merge(1))
  with s1 show ?thesis unfolding run by auto
qed

lemma feed_calls_hunger:
  "\<not> db_lock s \<Longrightarrow> stored dev s = Some state \<Longrightarrow> 0 \<le> hunger state \<Longrightarrow>
     \<exists>r. stored dev (feed_calls dev calls s) = Some r \<and> 0 \<le> hunger r"
proof (induction calls arbitrary: s state)
  case Nil
  then show ?case by simp
next
  case (Cons c calls)
  show ?case
  proof (cases c)
    case (Feed_endpoint now)
    from pet_feed_effect [OF Cons.prems(1,2), of now] obtain r
      where r: "stored dev (snd (pet_feed dev now s)) = Some r" "fed now state r"
        "\<not> db_lock (snd (pet_feed dev now s))" by blast
    from r(2) have "0 \<le> hunger r" by (simp add: fed_def)
    from Cons.IH [OF r(3) r(1) this] show ?thesis by (simp add: Feed_endpoint)
  next
    case (Image_upload now)
    from upload_binary_image_effect [OF Cons.prems(1,2), of now] obtain r
      where r: "stored dev (snd (upload_binary_image dev True now s)) = Some r" "fed now state r"
        "\<not> db_lock (snd (upload_binary_image dev True now s))" by blast
    from r(2) have "0 \<le> hunger r" by (simp add: fed_def)
    from Cons.IH [OF r(3) r(1) this] show ?thesis by (simp add: Image_upload)
  qed
qed

text \<open>
  C5. For a device that has a pet row (and a server whose \<open>db_lock\<close> is free), a feed
  through \<open>/api/pet/feed\<close> and a feed through the image upload each leave the row with
  hunger \<open>max(0, hunger - 40)\<close>, \<open>digestion_due_time = now + 30 min\<close>, emotion EATING
  and \<open>emotion_expire_at = now + 3 s\<close>; and after any sequence of feeds that starts
  from hunger \<open>\<ge> 0\<close> the stored hunger is \<open>\<ge> 0\<close>.
\<close>

theorem feed_effect:
  assumes "\<not> db_lock s" and "stored dev s = Some state"
  shows "(\<exists>r. stored dev (snd (pet_feed dev now s)) = Some r \<and> fed now state r)
    \<and> (\<exists>r. stored dev (snd (upload_binary_image dev True now s)) = Some r \<and> fed now state r)
    \<and> (0 \<le> hunger state
          \<longrightarrow> (\<exists>r. stored dev (feed_calls dev calls s) = Some r \<and> 0 \<le> hunger r))"
  using pet_feed_effect [OF assms, of now] upload_binary_image_effect [OF assms, of now]
    feed_calls_hunger [OF assms, of calls]
  by blast

text \<open>
  The theorem on the freshly initialised server: three feeds of \<open>ESP32_001\<close> (hunger 0)
  leave hunger at 0, fed at the time of the last one.
\<close>

theorem feed_effect_witness:
  "\<not> db_lock fresh_server
   \<and> stored ''ESP32_001'' fresh_server = Some (default_pet_row ''ESP32_001'' 0)
   \<and> (\<exists>r. stored ''ESP32_001'' (snd (pet_feed ''ESP32_001'' 10 fresh_server)) = Some r
          \<and> fed 10 (default_pet_row ''ESP32_001'' 0) r)
   \<and> (\<exists>r. stored ''ESP32_001'' (snd (upload_binary_image ''ESP32_001'' True 10 fresh_server)) = Some r
          \<and> fed 10 (default_pet_row ''ESP32_001'' 0) r)
   \<and> (\<exists>r. stored ''ESP32_001''
            (feed_calls ''ESP32_001'' [Feed_endpoint 10, Image_upload 20, Feed_endpoint 30] fresh_server)
          = Some r \<and> 0 \<le> hunger r)"
proof -
  have l: "\<not> db_lock fresh_server"
    by (simp add: fresh_server_def init_database_def empty_server_def Let_def)
  have st: "stored ''ESP32_001'' fresh_server = Some (default_pet_row ''ESP32_001'' 0)"
    by (simp add: fresh_server_def init_database_def empty_server_def Let_def stored_def
        DEFAULT_DEVICE_def default_pet_row_def)
  have h: "0 \<le> hunger (default_pet_row ''ESP32_001'' 0)" by (simp add: default_pet_row_def)
  from feed_effect [OF l st, of 10 "[Feed_endpoint 10, Image_upload 20, Feed_endpoint 30]"] h l st
  show ?thesis by blast
qed

section \<open>The scheduler tick\<close>








section \<open>The display poll\<close>

lemma get_oled_display_startup:
  "\<not> db_lock s \<Longrightarrow> override_row dev s = Some row \<Longrightarrow> startup_locked utcnow row \<Longrightarrow>
     get_oled_display dev utcnow s = (Returns startup_descriptor, s)"
  by (simp add: get_oled_display_def override_row_def)

lemma get_oled_display_manual:
  "\<not> db_lock s \<Longrightarrow> override_row dev s = Some row \<Longrightarrow> \<not> startup_locked utcnow row \<Longrightarrow>
     get_oled_display dev utcnow s = (Returns (manual_descriptor row), s)"
  by (simp add: get_oled_display_def override_row_def)

lemma get_oled_display_default:
  "\<not> db_lock s \<Longrightarrow> override_row dev s = None \<Longrightarrow> stored dev s = None \<Longrightarrow>
     get_oled_display dev utcnow s = (Returns default_descriptor, s)"
  by (simp add: get_oled_display_def override_row_def get_pet_state_def stored_def)

lemma get_oled_display_automatic:
  "\<not> db_lock s \<Longrightarrow> override_row dev s = None \<Longrightarrow> stored dev s = Some pet \<Longrightarrow>
   \<not> menu_transition_pending pet \<Longrightarrow>
     get_oled_display dev utcnow s
       = (Returns (automatic_descriptor pet (stage_to_id (stage pet)) (current_menu pet) False), s)"
  by (auto simp: get_oled_display_def override_row_def get_pet_state_def stored_def
      menu_transition_pending_def Let_def)

lemma poll_transition_blocks:
  "fst (poll_transition dev f anim_id menu play_eating s) = Blocks
   \<and> db_lock (snd (poll_transition dev f anim_id menu play_eating s))
   \<and> pet_state (snd (poll_transition dev f anim_id menu play_eating s)) = update_pet dev f (pet_state s)
   \<and> oled_display_state (snd (poll_transition dev f anim_id menu play_eating s)) = oled_display_state s"
  by (simp add: poll_transition_def get_pet_state_def Let_def)

lemma get_oled_display_transition:
  "\<not> db_lock s \<Longrightarrow> override_row dev s = None \<Longrightarrow> stored dev s = Some pet \<Longrightarrow>
   menu_transition_pending pet \<Longrightarrow>
     fst (get_oled_display dev utcnow s) = Blocks \<and> db_lock (snd (get_oled_display dev utcnow s))"
  by (auto simp: get_oled_display_def override_row_def get_pet_state_def stored_def
      menu_transition_pending_def Let_def poll_transition_blocks)

text \<open>
  C8. For a device id without a pet row, on a server whose \<open>db_lock\<close> is free, the
  poll answers 200 with status \<open>success\<close> whatever the override table holds; and when
  there is no override row for the device either, the answer is the default
  descriptor: animation id 1, stage CHILD, health 100, hunger 0, cleanliness 100,
  happiness 100, energy 100, menu MAIN, mode DEFAULT. The tables are not changed.
\<close>

theorem poll_without_pet_state:
  assumes "\<not> db_lock s" and "stored dev s = None"
  shows "(\<exists>resp. get_oled_display dev utcnow s = (Returns resp, s) \<and> fst resp = 200
             \<and> body_field resp ''status'' = Some (JStr ''success''))
    \<and> (override_row dev s = None \<longrightarrow>
          get_oled_display dev utcnow s = (Returns default_descriptor, s))
    \<and> fst default_descriptor = 200
    \<and> body_field default_descriptor ''status'' = Some (JStr ''success'')
    \<and> body_field default_descriptor ''mode'' = Some (JStr ''DEFAULT'')
    \<and> body_field default_descriptor ''animation_id'' = Some (JInt 1)
    \<and> body_field default_descriptor ''stage'' = Some (JStr ''CHILD'')
    \<and> body_field default_descriptor ''health'' = Some (JInt 100)
    \<and> body_field default_descriptor ''hunger'' = Some (JInt 0)
    \<and> body_field default_descriptor ''cleanliness'' = Some (JInt 100)
    \<and> body_field default_descriptor ''happiness'' = Some (JInt 100)
    \<and> body_field default_descriptor ''energy'' = Some (JInt 100)
    \<and> body_field default_descriptor ''current_menu'' = Some (JStr ''MAIN'')"
proof -
  have status: "fst startup_descriptor = 200"
    "body_field startup_descriptor ''status'' = Some (JStr ''success'')"
    "\<And>row. fst (manual_descriptor row) = 200"
    "\<And>row. body_field (manual_descriptor row) ''status'' = Some (JStr ''success'')"
    "fst default_descriptor = 200"
    "body_field default_descriptor ''status'' = Some (JStr ''success'')"
    by (simp_all add: body_field_def startup_descriptor_def manual_descriptor_def
        default_descriptor_def)
  have always: "\<exists>resp. get_oled_display dev utcnow s = (Returns resp, s) \<and> fst resp = 200
             \<and> body_field resp ''status'' = Some (JStr ''success'')"
  proof (cases "override_row dev s")
    case None
    from get_oled_display_default [OF assms(1) None assms(2)] status show ?thesis by blast
  next
    case (Some row)
    show ?thesis
    proof (cases "startup_locked utcnow row")
      case True
      from get_oled_display_startup [OF assms(1) Some True] status show ?thesis by blast
    next
      case False
      from get_oled_display_manual [OF assms(1) Some False] status show ?thesis by blast
    qed
  qed
  have dflt: "override_row dev s = None \<longrightarrow>
          get_oled_display dev utcnow s = (Returns default_descriptor, s)"
    using get_oled_display_default [OF assms(1) _ assms(2)] by blast
  have fields: "body_field default_descriptor ''mode'' = Some (JStr ''DEFAULT'')"
    "body_field default_descriptor ''animation_id'' = Some (JInt 1)"
    "body_field default_descriptor ''stage'' = Some (JStr ''CHILD'')"
    "body_field default_descriptor ''health'' = Some (JInt 100)"
    "body_field default_descriptor ''hunger'' = Some (JInt 0)"
    "body_field default_descriptor ''cleanliness'' = Some (JInt 100)"
    "body_field default_descriptor ''happiness'' = Some (JInt 100)"
    "body_field default_descriptor ''energy'' = Some (JInt 100)"
    "body_field default_descriptor ''current_menu'' = Some (JStr ''MAIN'')"
    by (simp_all add: body_field_def default_descriptor_def)
  from always dflt status(5,6) fields show ?thesis by blast
qed

text \<open>The theorem for the unknown device \<open>D1\<close> on the empty server.\<close>

theorem poll_without_pet_state_witness:
  "\<not> db_lock empty_server \<and> stored ''D1'' empty_server = None
   \<and> override_row ''D1'' empty_server = None
   \<and> get_oled_display ''D1'' 7 empty_server = (Returns default_descriptor, empty_server)"
proof -
  have l: "\<not> db_lock empty_server" and p: "stored ''D1'' empty_server = None"
    and o: "override_row ''D1'' empty_server = None"
    by (simp_all add: empty_server_def stored_def override_row_def)
  from poll_without_pet_state [OF l p, of 7] o
  have "get_oled_display ''D1'' 7 empty_server = (Returns default_descriptor, empty_server)"
    by blast
  with l p o show ?thesis by blast
qed

text \<open>
  The priority of the poll on a server whose \<open>db_lock\<close> is free: a recent startup
  record first, then any override row, then the pet row. The last step returns the
  AUTOMATIC descriptor only when no menu transition is pending.
\<close>

lemma poll_priority:
  assumes "\<not> db_lock s"
  shows "(\<forall>row. override_row dev s = Some row \<and> startup_locked utcnow row \<longrightarrow>
            get_oled_display dev utcnow s = (Returns startup_descriptor, s))
    \<and> (\<forall>row. override_row dev s = Some row \<and> \<not> startup_locked utcnow row \<longrightarrow>
            get_oled_display dev utcnow s = (Returns (manual_descriptor row), s))
    \<and> (\<forall>pet. override_row dev s = None \<and> stored dev s = Some pet \<and> \<not> menu_transition_pending pet \<longrightarrow>
            get_oled_display dev utcnow s
              = (Returns (automatic_descriptor pet (stage_to_id (stage pet)) (current_menu pet) False), s))"
  using assms get_oled_display_startup get_oled_display_manual get_oled_display_automatic
  by blast

lemma automatic_descriptor_fields:
  "body_field (automatic_descriptor pet (stage_to_id (stage pet)) menu pe) ''mode'' = Some (JStr ''AUTOMATIC'')"
  "body_field (automatic_descriptor pet (stage_to_id (stage pet)) menu pe) ''show_food_icon''
     = Some (JBool (hunger pet > 70))"
  "body_field (automatic_descriptor pet (stage_to_id (stage pet)) menu pe) ''show_poop_icon''
     = Some (JBool (poop_present pet))"
  "body_field (automatic_descriptor pet (stage_to_id (stage pet)) menu pe) ''animation_id''
     = Some (JInt (stage_to_id (stage pet)))"
  "stage_to_id ''INFANT'' = 0" "stage_to_id ''CHILD'' = 1" "stage_to_id ''ADULT'' = 2"
  "stage_to_id ''OLD'' = 3" "stage_to_id ''END'' = 3"
  by (simp_all add: body_field_def automatic_descriptor_def stage_to_id_def)

text \<open>
  C3, the failing input. With no override row and a pet that sits in \<open>FOOD_MENU\<close> with
  hunger 0, the poll commits \<open>current_emotion = 'EATING'\<close> and then calls
  \<open>get_pet_state\<close> while it still holds \<open>db_lock\<close>: the call never returns, no
  descriptor is sent, and the lock stays held.
\<close>

theorem poll_menu_transition_blocks:
  "override_row ''ESP32_001'' food_menu_server = None
   \<and> map current_menu (pet_state food_menu_server) = [''FOOD_MENU'']
   \<and> map hunger (pet_state food_menu_server) = [0]
   \<and> \<not> db_lock food_menu_server
   \<and> fst (get_oled_display ''ESP32_001'' 100 food_menu_server) = Blocks
   \<and> db_lock (snd (get_oled_display ''ESP32_001'' 100 food_menu_server))
   \<and> map current_emotion (pet_state (snd (get_oled_display ''ESP32_001'' 100 food_menu_server)))
        = [''EATING'']"
proof -
  have s: "food_menu_server = \<lparr>pet_state = [(default_pet_row ''ESP32_001'' 0)\<lparr>current_menu := ''FOOD_MENU''\<rparr>],
      oled_display_state = [], important_events = [], db_lock = False\<rparr>"
    by (simp add: food_menu_server_def fresh_server_def init_database_def empty_server_def
        switch_menu_def reset_oled_display_def update_pet_def DEFAULT_DEVICE_def Let_def
        default_oled_row_def default_pet_row_def)
  show ?thesis
    unfolding s
    by (simp add: override_row_def get_oled_display_def get_pet_state_def poll_transition_def
        update_pet_def default_pet_row_def Let_def)
qed

section \<open>The version counter\<close>

lemma find_map_keep:
  "(\<And>x. P (g x) = P x) \<Longrightarrow> find P (map g xs) = map_option g (find P xs)"
  by (induction xs) simp_all

lemma find_append_one:
  "find P (xs @ [y]) = (case find P xs of Some x \<Rightarrow> Some x | None \<Rightarrow> if P y then Some y else None)"
  by (induction xs) simp_all


lemma keeps_version_same:
  "pet_state s' = pet_state s \<Longrightarrow> keeps_version dev s s'"
  by (simp add: keeps_version_def stored_def split: option.splits)

lemma stored_update_pet:
  assumes "\<And>r. device_id (f r) = device_id r"
  shows "stored dev (s\<lparr>pet_state := update_pet d f (pet_state s)\<rparr>)
           = map_option (\<lambda>r. if device_id r = d then f r else r) (stored dev s)"
  unfolding stored_def update_pet_def
  using assms by (simp add: find_map_keep)

lemma keeps_version_update_pet:
  assumes "\<And>r. device_id (f r) = device_id r" "\<And>r. version (f r) = version r"
    and "pet_state s' = update_pet d f (pet_state s)"
  shows "keeps_version dev s s'"
proof -
  have "stored dev s' = stored dev (s\<lparr>pet_state := update_pet d f (pet_state s)\<rparr>)"
    using assms(3) by (simp add: stored_def)
  also have "\<dots> = map_option (\<lambda>r. if device_id r = d then f r else r) (stored dev s)"
    using assms(1) by (rule stored_update_pet)
  finally show ?thesis
    using assms(2) by (auto simp: keeps_version_def split: option.splits)
qed

lemma keeps_version_upsert_pet:
  assumes "\<And>r. device_id (f r) = device_id r" "\<And>r. version (f r) = version r"
    and "version new_row = 0"
    and "pet_state s' = upsert_pet d f new_row (pet_state s)"
  shows "keeps_version dev s s'"
proof (cases "filter (\<lambda>r. device_id r = d) (pet_state s) = []")
  case True
  with assms(4) have "pet_state s' = pet_state s @ [new_row]" by (simp add: upsert_pet_def)
  then have "stored dev s' = (case stored dev s of Some x \<Rightarrow> Some x
      | None \<Rightarrow> if device_id new_row = dev then Some new_row else None)"
    by (simp add: stored_def find_append_one)
  with assms(3) show ?thesis
    by (auto simp: keeps_version_def split: option.splits)
next
  case False
  with assms(4) have "pet_state s' = update_pet d f (pet_state s)" by (simp add: upsert_pet_def)
  from keeps_version_update_pet [OF assms(1,2) this] show ?thesis .
qed

lemma keeps_version_startup:
  "keeps_version dev s (snd (device_startup_complete d utcnow s))"
proof (cases "db_lock s")
  case True
  then show ?thesis by (simp add: device_startup_complete_def keeps_version_same)
next
  case False
  have "keeps_version dev s (snd (device_startup_complete d utcnow s))"
  proof (rule keeps_version_upsert_pet)
    show "pet_state (snd (device_startup_complete d utcnow s))
        = upsert_pet d (startup_reset_pet utcnow) (default_pet_row d utcnow) (pet_state s)"
      using False by (simp add: device_startup_complete_def)
  qed (simp_all add: startup_reset_pet_def default_pet_row_def)
  then show ?thesis .
qed

lemma keeps_version_switch_menu:
  "keeps_version dev s (snd (switch_menu d menu s))"
proof (cases "menu \<notin> set [''MAIN'', ''FOOD_MENU'', ''TOILET_MENU''] \<or> db_lock s")
  case True
  then have "snd (switch_menu d menu s) = s" by (auto simp: switch_menu_def)
  then show ?thesis by (simp add: keeps_version_same)
next
  case False
  show ?thesis
  proof (rule keeps_version_update_pet)
    show "pet_state (snd (switch_menu d menu s))
        = update_pet d (\<lambda>r. r\<lparr>current_menu := menu\<rparr>) (pet_state s)"
      using False by (simp add: switch_menu_def)
  qed simp_all
qed

lemma get_oled_display_pet_state:
  "pet_state (snd (get_oled_display d utcnow s)) = pet_state s
   \<or> pet_state (snd (get_oled_display d utcnow s))
        = update_pet d (\<lambda>r. r\<lparr>current_emotion := ''EATING''\<rparr>) (pet_state s)
   \<or> pet_state (snd (get_oled_display d utcnow s))
        = update_pet d (\<lambda>r. r\<lparr>current_menu := ''MAIN'', current_emotion := ''IDLE''\<rparr>) (pet_state s)"
  by (simp add: get_oled_display_def poll_transition_blocks Let_def
      split: option.splits outcome.splits)

lemma keeps_version_poll:
  "keeps_version dev s (snd (get_oled_display d utcnow s))"
  using get_oled_display_pet_state [of d utcnow s]
  by (auto intro: keeps_version_same
      keeps_version_update_pet [where f = "\<lambda>r. r\<lparr>current_emotion := ''EATING''\<rparr>"]
      keeps_version_update_pet [where f = "\<lambda>r. r\<lparr>current_menu := ''MAIN'', current_emotion := ''IDLE''\<rparr>"])

lemma keeps_version_init:
  "keeps_version dev s (snd (init_database utcnow s))"
proof (cases "db_lock s \<or> pet_state s \<noteq> []")
  case True
  then have "pet_state (snd (init_database utcnow s)) = pet_state s"
    by (auto simp: init_database_def Let_def)
  then show ?thesis by (rule keeps_version_same)
next
  case False
  then have "pet_state (snd (init_database utcnow s)) = [default_pet_row DEFAULT_DEVICE utcnow]"
    and "pet_state s = []"
    by (simp_all add: init_database_def Let_def)
  then show ?thesis
    by (simp add: keeps_version_def stored_def default_pet_row_def)
qed

lemma commits_atomic:
  "commits dev (Write_atomic d us) s \<longleftrightarrow> d = dev \<and> \<not> db_lock s \<and> stored dev s \<noteq> None"
proof (cases "db_lock s")
  case True
  then show ?thesis by (simp add: update_pet_state_atomic_def)
next
  case False
  show ?thesis
  proof (cases "stored d s")
    case None
    with False update_pet_state_atomic_missing [OF False None, of us] show ?thesis by auto
  next
    case (Some cur)
    with False update_pet_state_atomic_effect(1) [OF False Some, of us] show ?thesis by auto
  qed
qed

lemma atomic_write_row:
  "stored dev s = Some r0 \<Longrightarrow>
     \<exists>r. stored dev (apply_write (Write_atomic d us) s) = Some r
        \<and> version r = version r0 + (if commits dev (Write_atomic d us) s then 1 else 0)"
proof (cases "db_lock s")
  case True
  assume "stored dev s = Some r0"
  with True show ?thesis
    by (simp add: update_pet_state_atomic_def commits_atomic del: commits.simps)
next
  case False
  assume r0: "stored dev s = Some r0"
  show ?thesis
  proof (cases "stored d s")
    case None
    with r0 have "d \<noteq> dev" by auto
    with r0 update_pet_state_atomic_missing [OF False None, of us] show ?thesis
      by (simp add: commits_atomic del: commits.simps)
  next
    case (Some cur)
    show ?thesis
    proof (cases "d = dev")
      case True
      with r0 Some update_pet_state_atomic_effect(2) [OF False Some, of us] False
      show ?thesis by (simp add: commits_atomic del: commits.simps)
    next
      case False
      with r0 update_pet_state_atomic_effect(4) [OF \<open>\<not> db_lock s\<close> Some, of dev us]
      show ?thesis by (simp add: commits_atomic del: commits.simps)
    qed
  qed
qed

lemma atomic_write_no_row:
  "stored dev s = None \<Longrightarrow> stored dev (apply_write (Write_atomic d us) s) = None"
proof (cases "db_lock s")
  case True
  assume "stored dev s = None"
  with True show ?thesis by (simp add: update_pet_state_atomic_def)
next
  case False
  assume n: "stored dev s = None"
  show ?thesis
  proof (cases "stored d s")
    case None
    with n update_pet_state_atomic_missing [OF False None, of us] show ?thesis by simp
  next
    case (Some cur)
    with n have "dev \<noteq> d" by auto
    with n update_pet_state_atomic_effect(4) [OF False Some, of dev us] show ?thesis by simp
  qed
qed

lemma other_write_keeps_version:
  "\<not> is_atomic w \<Longrightarrow> keeps_version dev s (apply_write w s)"
  by (cases w)
    (simp_all add: is_atomic_def keeps_version_startup keeps_version_switch_menu
      keeps_version_poll keeps_version_init)

lemma apply_write_version:
  "stored_version dev (apply_write w s)
     = stored_version dev s + (if commits dev w s then 1 else 0)"
proof (cases "is_atomic w")
  case True
  then obtain d us where w: "w = Write_atomic d us" by (cases w) (simp_all add: is_atomic_def)
  show ?thesis
  proof (cases "stored dev s")
    case None
    with atomic_write_no_row [OF None, of d us] show ?thesis
      by (simp add: w stored_version_def commits_atomic del: apply_write.simps commits.simps)
  next
    case (Some r0)
    from atomic_write_row [OF Some, of d us] Some show ?thesis
      by (auto simp add: w stored_version_def simp del: apply_write.simps commits.simps)
  qed
next
  case False
  then have "\<not> commits dev w s" by (cases w) (simp_all add: is_atomic_def)
  with other_write_keeps_version [OF False, of dev s] show ?thesis
    by (auto simp: keeps_version_def stored_version_def split: option.splits)
qed

lemma apply_write_keeps_row:
  "stored dev s = Some r0 \<Longrightarrow> \<exists>r. stored dev (apply_write w s) = Some r"
proof (cases "is_atomic w")
  case True
  assume r0: "stored dev s = Some r0"
  from True obtain d us where w: "w = Write_atomic d us" by (cases w) (simp_all add: is_atomic_def)
  from atomic_write_row [OF r0, of d us] show ?thesis unfolding w by blast
next
  case False
  assume "stored dev s = Some r0"
  with other_write_keeps_version [OF False, of dev s] show ?thesis
    by (auto simp: keeps_version_def split: option.splits)
qed

lemma run_writes_version:
  "stored_version dev (run_writes ws s) = stored_version dev s + int (count_commits dev ws s)"
proof (induction ws arbitrary: s)
  case Nil
  then show ?case by simp
next
  case (Cons w ws)
  have "stored_version dev (run_writes (w # ws) s)
      = stored_version dev (apply_write w s) + int (count_commits dev ws (apply_write w s))"
    using Cons.IH [of "apply_write w s"] by simp
  also have "\<dots> = stored_version dev s + (if commits dev w s then 1 else 0)
      + int (count_commits dev ws (apply_write w s))"
    by (simp only: apply_write_version)
  finally show ?case by simp
qed

lemma run_writes_keeps_row:
  "stored dev s = Some r0 \<Longrightarrow> \<exists>r. stored dev (run_writes ws s) = Some r"
proof (induction ws arbitrary: s r0)
  case Nil
  then show ?case by simp
next
  case (Cons w ws)
  from apply_write_keeps_row [OF Cons.prems, of w] obtain r1
    where "stored dev (apply_write w s) = Some r1" by blast
  from Cons.IH [OF this] show ?case by simp
qed

text \<open>
  C1 (amended). Every call of \<open>update_pet_state_atomic\<close> that returns a state
  increases the version of the device's row by exactly 1. The other write paths to the
  row (the startup-complete reset, the menu transitions of the display poll, the
  menu-switch endpoint) change the row and leave its version as it is, and a row is
  created with version 0. So after any sequence of writes the stored version is the
  number of calls of \<open>update_pet_state_atomic\<close> for the device that returned a state
  since the row was created, not the number of committed writes.
\<close>

theorem version_counts_atomic_commits:
  "(stored dev s = None \<longrightarrow>
      (\<forall>r. stored dev (run_writes ws s) = Some r \<longrightarrow> version r = int (count_commits dev ws s)))
   \<and> (\<forall>r0. stored dev s = Some r0 \<longrightarrow>
        (\<exists>r. stored dev (run_writes ws s) = Some r
            \<and> version r = version r0 + int (count_commits dev ws s)))
   \<and> (\<forall>r0. stored dev s = Some r0 \<and> commits dev w s \<longrightarrow>
        (\<exists>r. stored dev (apply_write w s) = Some r \<and> version r = version r0 + 1))
   \<and> (\<forall>r0. stored dev s = Some r0 \<and> \<not> is_atomic w \<longrightarrow>
        (\<exists>r. stored dev (apply_write w s) = Some r \<and> version r = version r0))"
proof -
  have a: "stored dev s = None \<longrightarrow>
      (\<forall>r. stored dev (run_writes ws s) = Some r \<longrightarrow> version r = int (count_commits dev ws s))"
    using run_writes_version [of dev ws s] by (auto simp: stored_version_def)
  have b: "\<forall>r0. stored dev s = Some r0 \<longrightarrow>
        (\<exists>r. stored dev (run_writes ws s) = Some r
            \<and> version r = version r0 + int (count_commits dev ws s))"
  proof (intro allI impI)
    fix r0 assume r0: "stored dev s = Some r0"
    from run_writes_keeps_row [OF r0, of ws] obtain r
      where r: "stored dev (run_writes ws s) = Some r" by blast
    with run_writes_version [of dev ws s] r0
    have "version r = version r0 + int (count_commits dev ws s)"
      by (simp add: stored_version_def)
    with r show "\<exists>r. stored dev (run_writes ws s) = Some r
            \<and> version r = version r0 + int (count_commits dev ws s)" by blast
  qed
  have step: "\<And>r0. stored dev s = Some r0 \<Longrightarrow>
      \<exists>r. stored dev (apply_write w s) = Some r
         \<and> version r = version r0 + (if commits dev w s then 1 else 0)"
  proof -
    fix r0 assume r0: "stored dev s = Some r0"
    from apply_write_keeps_row [OF r0, of w] obtain r
      where r: "stored dev (apply_write w s) = Some r" by blast
    with apply_write_version [of dev w s] r0
    have "version r = version r0 + (if commits dev w s then 1 else 0)"
      by (simp add: stored_version_def)
    with r show "\<exists>r. stored dev (apply_write w s) = Some r
         \<and> version r = version r0 + (if commits dev w s then 1 else 0)" by blast
  qed
  have c: "\<forall>r0. stored dev s = Some r0 \<and> commits dev w s \<longrightarrow>
        (\<exists>r. stored dev (apply_write w s) = Some r \<and> version r = version r0 + 1)"
    using step by fastforce
  have nc: "\<not> is_atomic w \<Longrightarrow> \<not> commits dev w s"
    by (cases w) (simp_all add: is_atomic_def)
  have d: "\<forall>r0. stored dev s = Some r0 \<and> \<not> is_atomic w \<longrightarrow>
        (\<exists>r. stored dev (apply_write w s) = Some r \<and> version r = version r0)"
    using step nc by fastforce
  from a b c d show ?thesis by blast
qed

text \<open>
  The theorem on the example history: five writes, of which the two atomic updates
  count, leave version 2.
\<close>

theorem version_counts_atomic_commits_witness:
  "stored ''ESP32_001'' empty_server = None
   \<and> count_commits ''ESP32_001'' example_writes empty_server = 2
   \<and> (\<exists>r. stored ''ESP32_001'' (run_writes example_writes empty_server) = Some r \<and> version r = 2)"
proof -
  have n: "stored ''ESP32_001'' empty_server = None"
    by (simp add: stored_def empty_server_def)
  have s1: "apply_write (Write_init 0) empty_server = fresh_server"
    by (simp add: fresh_server_def)
  have f: "\<not> db_lock fresh_server"
    "stored ''ESP32_001'' fresh_server = Some (default_pet_row ''ESP32_001'' 0)"
    by (simp_all add: fresh_server_def init_database_def empty_server_def Let_def stored_def
        DEFAULT_DEVICE_def default_pet_row_def)
  let ?s2 = "apply_write (Write_atomic ''ESP32_001'' [Upd_hunger 5]) fresh_server"
  have c2: "commits ''ESP32_001'' (Write_atomic ''ESP32_001'' [Upd_hunger 5]) fresh_server"
    using f by (simp add: commits_atomic del: commits.simps)
  from update_pet_state_atomic_effect(2,3) [OF f, of "[Upd_hunger 5]"]
  have s2: "\<not> db_lock ?s2" "stored ''ESP32_001'' ?s2 \<noteq> None" by simp_all
  let ?s3 = "apply_write (Write_switch_menu ''ESP32_001'' ''FOOD_MENU'') ?s2"
  have l3: "\<not> db_lock ?s3" using s2(1) by (simp add: switch_menu_def)
  from s2(2) apply_write_keeps_row [of "''ESP32_001''" ?s2 _ "Write_switch_menu ''ESP32_001'' ''FOOD_MENU''"]
  have r3: "stored ''ESP32_001'' ?s3 \<noteq> None" by fastforce
  let ?s4 = "apply_write (Write_startup ''ESP32_001'' 10) ?s3"
  have l4: "\<not> db_lock ?s4" using l3 by (simp add: device_startup_complete_def)
  from r3 apply_write_keeps_row [of "''ESP32_001''" ?s3 _ "Write_startup ''ESP32_001'' 10"]
  have r4: "stored ''ESP32_001'' ?s4 \<noteq> None" by fastforce
  have c5: "commits ''ESP32_001'' (Write_atomic ''ESP32_001'' [Upd_energy 7]) ?s4"
    using l4 r4 by (simp add: commits_atomic del: commits.simps apply_write.simps)
  have count: "count_commits ''ESP32_001'' example_writes empty_server = 2"
    unfolding example_writes_def
    using c2 c5
    by (simp add: s1 del: commits.simps(1) apply_write.simps)
  from version_counts_atomic_commits [of "''ESP32_001''" empty_server example_writes] n count
  have v: "\<forall>r. stored ''ESP32_001'' (run_writes example_writes empty_server) = Some r \<longrightarrow> version r = 2"
    by simp
  have "run_writes example_writes empty_server
      = apply_write (Write_atomic ''ESP32_001'' [Upd_energy 7]) ?s4"
    by (simp add: example_writes_def s1 del: apply_write.simps)
  moreover from r4 apply_write_keeps_row [of "''ESP32_001''" ?s4 _ "Write_atomic ''ESP32_001'' [Upd_energy 7]"]
  have "stored ''ESP32_001'' (apply_write (Write_atomic ''ESP32_001'' [Upd_energy 7]) ?s4) \<noteq> None"
    by fastforce
  ultimately obtain r where "stored ''ESP32_001'' (run_writes example_writes empty_server) = Some r"
    by auto
  with v n count show ?thesis by blast
qed

text \<open>
  C1 as stated fails: the menu-switch endpoint answers 200 and changes the row's
  \<open>current_menu\<close>, and the row's version is what it was.
\<close>

theorem switch_menu_version_counterexample:
  "\<exists>r0 r1. stored ''ESP32_001'' fresh_server = Some r0
     \<and> switch_menu ''ESP32_001'' ''FOOD_MENU'' fresh_server
         = (Returns (200, [(''status'', JStr ''success''), (''current_menu'', JStr ''FOOD_MENU'')]),
            fresh_server\<lparr>pet_state := [r1]\<rparr>)
     \<and> current_menu r0 = ''MAIN'' \<and> current_menu r1 = ''FOOD_MENU''
     \<and> version r1 = version r0"
proof -
  have f: "fresh_server = \<lparr>pet_state = [default_pet_row ''ESP32_001'' 0],
      oled_display_state = [(default_oled_row ''ESP32_001'' 0)\<lparr>updated_by := ''system_init''\<rparr>],
      important_events = [], db_lock = False\<rparr>"
    by (simp add: fresh_server_def init_database_def empty_server_def Let_def DEFAULT_DEVICE_def)
  show ?thesis
    unfolding f
    by (rule exI [of _ "default_pet_row ''ESP32_001'' 0"],
        rule exI [of _ "(default_pet_row ''ESP32_001'' 0)\<lparr>current_menu := ''FOOD_MENU''\<rparr>"])
      (simp add: stored_def switch_menu_def update_pet_def default_pet_row_def)
qed

section \<open>Histories of requests and the display override\<close>

lemma pet_frame_refl [simp]: "pet_frame s s"
  by (simp add: pet_frame_def)
















































section \<open>The version conflict under the global lock\<close>

lemma select_current_SomeD:
  "select_current dev rows = Some (i, cur) \<Longrightarrow>
     i < length rows \<and> rows ! i = cur \<and> device_id cur = dev"
  by (auto simp: select_current_def split: option.splits dest: first_index_SomeD)

lemma update_after_select:
  assumes "select_current dev rows = Some (i, cur)"
  shows "update_where_id_version i (version cur) (merge_updates cur us) rows
           = (1, rows[i := merge_updates cur us])"
proof -
  from select_current_SomeD [OF assms]
  have i: "i < length rows" and cur: "rows ! i = cur" by simp_all
  then show ?thesis
    by (simp add: update_where_id_version_def merge_updates_keeps_device_id)
qed

lemma upsa_step_inv:
  assumes "upsa_step dev us c c'" "upsa_inv dev us c"
  shows "upsa_inv dev us c'"
  using assms
proof (cases rule: upsa_step.cases)
  case acquire
  with assms(2) show ?thesis by (simp add: upsa_inv_def)
next
  case select_none
  with assms(2) show ?thesis by (simp add: upsa_inv_def)
next
  case (select_row i current_state)
  with assms(2) show ?thesis by (simp add: upsa_inv_def)
next
  case (update_commit i current_state rowcount rows')
  with assms(2) have sel: "select_current dev (cfg_rows c) = Some (i, current_state)"
    and cnt: "cfg_reads c = 1" "cfg_writes c = 0" and rd: "cfg_read c = Some current_state"
    by (simp_all add: upsa_inv_def)
  from select_current_SomeD [OF sel] have "device_id current_state = dev" by simp
  with update_commit cnt rd show ?thesis by (simp add: upsa_inv_def)
next
  case (update_conflict i current_state rows')
  with assms(2) have "select_current dev (cfg_rows c) = Some (i, current_state)"
    by (simp add: upsa_inv_def)
  from update_after_select [OF this, of us] update_conflict(3) show ?thesis by simp
next
  case other_acquire
  with assms(2) show ?thesis
    by (auto simp: upsa_inv_def split: upsa_pc.splits option.splits)
next
  case (other_write rows')
  with assms(2) show ?thesis
    by (auto simp: upsa_inv_def split: upsa_pc.splits option.splits)
next
  case other_release
  with assms(2) show ?thesis
    by (auto simp: upsa_inv_def split: upsa_pc.splits option.splits)
qed

lemma upsa_reach_inv:
  assumes "(upsa_step dev us)\<^sup>*\<^sup>* c0 c" "upsa_initial c0"
  shows "upsa_inv dev us c"
  using assms
proof (induction rule: rtranclp_induct)
  case base
  then show ?case by (simp add: upsa_initial_def upsa_inv_def)
next
  case (step c c')
  from upsa_step_inv [OF step.hyps(2) step.IH [OF step.prems]] show ?case .
qed

text \<open>
  C9. In every interleaving of one call of \<open>update_pet_state_atomic\<close> with other
  threads that write \<open>pet_state\<close> only while they hold \<open>db_lock\<close>, the call never
  reaches the retry branch. Once it has read its row it holds the lock, the row it read
  is the row the table holds, and its UPDATE can run and commits the merged state. A
  call that has returned a state has run one SELECT and one UPDATE and returns the merge
  of the row it read with the update fields, the version one higher.
\<close>

theorem version_conflict_unreachable:
  assumes "(upsa_step dev us)\<^sup>*\<^sup>* c0 c" and "upsa_initial c0"
  shows "cfg_pc c \<noteq> Retrying
    \<and> (\<forall>i cur. cfg_pc c = Has_read i cur \<longrightarrow>
          cfg_lock c = Held_by_caller
          \<and> select_current dev (cfg_rows c) = Some (i, cur)
          \<and> upsa_step dev us c
               (c\<lparr>cfg_rows := (cfg_rows c)[i := merge_updates cur us], cfg_lock := Lock_free,
                  cfg_pc := Returned (Some (merge_updates cur us)),
                  cfg_writes := Suc (cfg_writes c)\<rparr>)
          \<and> (\<forall>c'. upsa_step dev us c c' \<longrightarrow>
                cfg_pc c' = Returned (Some (merge_updates cur us))
                \<and> cfg_rows c' = (cfg_rows c)[i := merge_updates cur us]))
    \<and> (\<forall>new_state. cfg_pc c = Returned (Some new_state) \<longrightarrow>
          cfg_reads c = 1 \<and> cfg_writes c = 1
          \<and> (\<exists>cur. cfg_read c = Some cur \<and> device_id cur = dev
                \<and> new_state = merge_updates cur us \<and> version new_state = version cur + 1))"
proof -
  note inv = upsa_reach_inv [OF assms]
  have no_retry: "cfg_pc c \<noteq> Retrying"
    using inv by (auto simp: upsa_inv_def)
  have reading: "\<forall>i cur. cfg_pc c = Has_read i cur \<longrightarrow>
          cfg_lock c = Held_by_caller
          \<and> select_current dev (cfg_rows c) = Some (i, cur)
          \<and> upsa_step dev us c
               (c\<lparr>cfg_rows := (cfg_rows c)[i := merge_updates cur us], cfg_lock := Lock_free,
                  cfg_pc := Returned (Some (merge_updates cur us)),
                  cfg_writes := Suc (cfg_writes c)\<rparr>)
          \<and> (\<forall>c'. upsa_step dev us c c' \<longrightarrow>
                cfg_pc c' = Returned (Some (merge_updates cur us))
                \<and> cfg_rows c' = (cfg_rows c)[i := merge_updates cur us])"
  proof (intro allI impI)
    fix i cur
    assume pc: "cfg_pc c = Has_read i cur"
    with inv have lock: "cfg_lock c = Held_by_caller"
      and sel: "select_current dev (cfg_rows c) = Some (i, cur)"
      by (simp_all add: upsa_inv_def)
    note upd = update_after_select [OF sel, of us]
    have step: "upsa_step dev us c
               (c\<lparr>cfg_rows := (cfg_rows c)[i := merge_updates cur us], cfg_lock := Lock_free,
                  cfg_pc := Returned (Some (merge_updates cur us)),
                  cfg_writes := Suc (cfg_writes c)\<rparr>)"
      by (rule upsa_step.update_commit [OF pc upd]) simp
    have only: "\<forall>c'. upsa_step dev us c c' \<longrightarrow>
                cfg_pc c' = Returned (Some (merge_updates cur us))
                \<and> cfg_rows c' = (cfg_rows c)[i := merge_updates cur us]"
    proof (intro allI impI)
      fix c'
      assume "upsa_step dev us c c'"
      then show "cfg_pc c' = Returned (Some (merge_updates cur us))
                \<and> cfg_rows c' = (cfg_rows c)[i := merge_updates cur us]"
        using pc lock upd by (cases rule: upsa_step.cases) auto
    qed
    from lock sel step only
    show "cfg_lock c = Held_by_caller
          \<and> select_current dev (cfg_rows c) = Some (i, cur)
          \<and> upsa_step dev us c
               (c\<lparr>cfg_rows := (cfg_rows c)[i := merge_updates cur us], cfg_lock := Lock_free,
                  cfg_pc := Returned (Some (merge_updates cur us)),
                  cfg_writes := Suc (cfg_writes c)\<rparr>)
          \<and> (\<forall>c'. upsa_step dev us c c' \<longrightarrow>
                cfg_pc c' = Returned (Some (merge_updates cur us))
                \<and> cfg_rows c' = (cfg_rows c)[i := merge_updates cur us])"
      by blast
  qed
  have returned: "\<forall>new_state. cfg_pc c = Returned (Some new_state) \<longrightarrow>
          cfg_reads c = 1 \<and> cfg_writes c = 1
          \<and> (\<exists>cur. cfg_read c = Some cur \<and> device_id cur = dev
                \<and> new_state = merge_updates cur us \<and> version new_state = version cur + 1)"
  proof (intro allI impI)
    fix new_state
    assume "cfg_pc c = Returned (Some new_state)"
    with inv have cnt: "cfg_reads c = 1 \<and> cfg_writes c = 1"
      and rd: "case cfg_read c of None \<Rightarrow> False
              | Some current_state \<Rightarrow> device_id current_state = dev
                  \<and> new_state = merge_updates current_state us"
      by (simp_all add: upsa_inv_def)
    from rd obtain cur where "cfg_read c = Some cur" "device_id cur = dev"
      "new_state = merge_updates cur us"
      by (cases "cfg_read c") simp_all
    with cnt show "cfg_reads c = 1 \<and> cfg_writes c = 1
          \<and> (\<exists>cur. cfg_read c = Some cur \<and> device_id cur = dev
                \<and> new_state = merge_updates cur us \<and> version new_state = version cur + 1)"
      by simp
  qed
  from no_retry reading returned show ?thesis by blast
qed

text \<open>
  The theorem on a run in which another thread creates the row before the call takes
  the lock and reads it: the call is not retrying, and its UPDATE commits version 1.
\<close>

theorem version_conflict_unreachable_witness:
  "upsa_initial config_start
   \<and> (upsa_step ''ESP32_001'' [Upd_energy 7])\<^sup>*\<^sup>* config_start config_read
   \<and> cfg_pc config_read \<noteq> Retrying
   \<and> cfg_lock config_read = Held_by_caller
   \<and> upsa_step ''ESP32_001'' [Upd_energy 7] config_read
        (config_read\<lparr>cfg_rows := [merge_updates (default_pet_row ''ESP32_001'' 0) [Upd_energy 7]],
           cfg_lock := Lock_free,
           cfg_pc := Returned (Some (merge_updates (default_pet_row ''ESP32_001'' 0) [Upd_energy 7])),
           cfg_writes := 1\<rparr>)
   \<and> version (merge_updates (default_pet_row ''ESP32_001'' 0) [Upd_energy 7]) = 1"
proof -
  let ?step = "upsa_step ''ESP32_001'' [Upd_energy 7]"
  let ?row = "default_pet_row ''ESP32_001'' 0"
  have init: "upsa_initial config_start"
    by (simp add: upsa_initial_def config_start_def)
  let ?c1 = "config_start\<lparr>cfg_lock := Held_by_other\<rparr>"
  let ?c2 = "?c1\<lparr>cfg_rows := [?row]\<rparr>"
  let ?c3 = "?c2\<lparr>cfg_lock := Lock_free\<rparr>"
  let ?c4 = "?c3\<lparr>cfg_lock := Held_by_caller, cfg_pc := Has_lock\<rparr>"
  let ?c5 = "?c4\<lparr>cfg_pc := Has_read 0 ?row, cfg_reads := Suc (cfg_reads ?c4),
      cfg_read := Some ?row\<rparr>"
  have s1: "?step config_start ?c1"
    by (rule upsa_step.other_acquire) (simp add: config_start_def)
  have s2: "?step ?c1 ?c2" by (rule upsa_step.other_write) simp
  have s3: "?step ?c2 ?c3" by (rule upsa_step.other_release) simp
  have s4: "?step ?c3 ?c4" by (rule upsa_step.acquire) (simp_all add: config_start_def)
  have s5: "?step ?c4 ?c5"
    by (rule upsa_step.select_row)
      (simp_all add: config_start_def select_current_def default_pet_row_def)
  have c5: "?c5 = config_read" by (simp add: config_start_def config_read_def)
  from s1 s2 s3 s4 s5 have reach: "?step\<^sup>*\<^sup>* config_start config_read"
    unfolding c5 [symmetric] by (meson rtranclp.rtrancl_into_rtrancl rtranclp.rtrancl_refl)
  have pc: "cfg_pc config_read = Has_read 0 ?row" by (simp add: config_read_def)
  from version_conflict_unreachable [OF reach init] pc
  have "cfg_pc config_read \<noteq> Retrying" and "cfg_lock config_read = Held_by_caller"
    and "?step config_read
        (config_read\<lparr>cfg_rows := (cfg_rows config_read)[0 := merge_updates ?row [Upd_energy 7]],
           cfg_lock := Lock_free,
           cfg_pc := Returned (Some (merge_updates ?row [Upd_energy 7])),
           cfg_writes := Suc (cfg_writes config_read)\<rparr>)"
    by blast+
  moreover have "cfg_rows config_read = [?row]" "cfg_writes config_read = 0"
    by (simp_all add: config_read_def)
  moreover have "version (merge_updates ?row [Upd_energy 7]) = 1"
    by (simp add: default_pet_row_def)
  ultimately show ?thesis using init reach by simp
qed


end
